theory Spec2Isabelle
  imports Complex_Main "HOL-Library.Log_Nat"
begin

section \<open>JavaScript numbers\<close>

text \<open>
  A JavaScript Number is a binary64 value. \<open>Fin q\<close> is the finite Number whose value is the
  rational \<open>q\<close>, and \<open>PInf\<close>, \<open>NInf\<close>, \<open>NaN\<close> are the three non-finite Numbers. Every
  arithmetic operation computes the exact result and rounds it to binary64 (to the
  nearest value, a tie going to the even significand; beyond the largest finite value to
  an infinity), as the language does. The two zeros are identified (they compare equal,
  and the program never divides by a zero it has not tested for). Comparisons with \<open>NaN\<close>
  are false.
\<close>

datatype jsnum = Fin rat | PInf | NInf | NaN

subsection \<open>Rounding to binary64\<close>

text \<open>\<open>ilog2 a\<close> is the exponent \<open>e\<close> with \<open>2\<^sup>e \<le> a < 2\<^sup>e\<^sup>+\<^sup>1\<close>, for positive \<open>a\<close>.\<close>

definition ilog2 :: "rat \<Rightarrow> int" where
  "ilog2 a = (let k = bitlen (fst (quotient_of a)) - bitlen (snd (quotient_of a))
              in if 2 powi k \<le> a then k else k - 1)"

text \<open>The nearest integer, a tie going to the even one.\<close>

definition round_half_even :: "rat \<Rightarrow> int" where
  "round_half_even x =
     (let f = \<lfloor>x\<rfloor>; r = x - of_int f
      in if r < 1 / 2 then f else if 1 / 2 < r then f + 1 else if even f then f else f + 1)"

text \<open>
  The exponent of the unit in the last place: a significand of 53 bits, and the fixed
  exponent \<open>-1074\<close> in the subnormal range.
\<close>

definition ulp_exponent :: "rat \<Rightarrow> int" where
  "ulp_exponent a = max (ilog2 a - 52) (- 1074)"

definition round_at :: "int \<Rightarrow> rat \<Rightarrow> rat" where
  "round_at p a = of_int (round_half_even (a / 2 powi p)) * 2 powi p"

definition round_magnitude :: "rat \<Rightarrow> rat" where
  "round_magnitude a = (if a = 0 then 0 else round_at (ulp_exponent a) a)"

text \<open>A magnitude of \<open>2\<^sup>1\<^sup>0\<^sup>2\<^sup>4\<close> or more is beyond the finite values.\<close>

definition overflows :: "rat \<Rightarrow> bool" where
  "overflows r \<longleftrightarrow> 0 < r \<and> 1024 \<le> ilog2 r"

text \<open>
  The Number that an exact result \<open>q\<close> is rounded to; also the Number that a decimal
  literal of value \<open>q\<close> denotes.
\<close>

definition binary64 :: "rat \<Rightarrow> jsnum" where
  "binary64 q =
     (let r = round_magnitude \<bar>q\<bar>
      in if overflows r then (if 0 < q then PInf else NInf)
         else Fin (if 0 < q then r else - r))"

subsection \<open>Comparison and arithmetic\<close>

fun js_le :: "jsnum \<Rightarrow> jsnum \<Rightarrow> bool" where
  "js_le NaN _ = False"
| "js_le _ NaN = False"
| "js_le (Fin a) (Fin b) = (a \<le> b)"
| "js_le NInf _ = True"
| "js_le _ PInf = True"
| "js_le PInf _ = False"
| "js_le _ NInf = False"

fun js_lt :: "jsnum \<Rightarrow> jsnum \<Rightarrow> bool" where
  "js_lt NaN _ = False"
| "js_lt _ NaN = False"
| "js_lt (Fin a) (Fin b) = (a < b)"
| "js_lt PInf _ = False"
| "js_lt _ NInf = False"
| "js_lt NInf _ = True"
| "js_lt _ PInf = True"

definition js_ge :: "jsnum \<Rightarrow> jsnum \<Rightarrow> bool" where
  "js_ge a b = js_le b a"

definition js_gt :: "jsnum \<Rightarrow> jsnum \<Rightarrow> bool" where
  "js_gt a b = js_lt b a"

text \<open>\<open>Math.min\<close> and \<open>Math.max\<close>: \<open>NaN\<close> if either argument is \<open>NaN\<close>.\<close>

fun Math_min :: "jsnum \<Rightarrow> jsnum \<Rightarrow> jsnum" where
  "Math_min NaN _ = NaN"
| "Math_min _ NaN = NaN"
| "Math_min a b = (if js_le a b then a else b)"

fun Math_max :: "jsnum \<Rightarrow> jsnum \<Rightarrow> jsnum" where
  "Math_max NaN _ = NaN"
| "Math_max _ NaN = NaN"
| "Math_max a b = (if js_le a b then b else a)"

text \<open>\<open>Math.round\<close>: the nearest integer, a tie going towards \<open>+\<infinity>\<close>.\<close>

fun Math_round :: "jsnum \<Rightarrow> jsnum" where
  "Math_round (Fin q) = Fin (of_int \<lfloor>q + 1 / 2\<rfloor>)"
| "Math_round x = x"

fun isFinite :: "jsnum \<Rightarrow> bool" where
  "isFinite (Fin _) = True"
| "isFinite _ = False"

text \<open>Truthiness of a Number: \<open>0\<close> and \<open>NaN\<close> are falsy.\<close>

fun truthy :: "jsnum \<Rightarrow> bool" where
  "truthy (Fin q) = (q \<noteq> 0)"
| "truthy NaN = False"
| "truthy _ = True"

fun js_sub :: "jsnum \<Rightarrow> jsnum \<Rightarrow> jsnum" where
  "js_sub NaN _ = NaN"
| "js_sub _ NaN = NaN"
| "js_sub (Fin a) (Fin b) = binary64 (a - b)"
| "js_sub PInf PInf = NaN"
| "js_sub NInf NInf = NaN"
| "js_sub PInf _ = PInf"
| "js_sub NInf _ = NInf"
| "js_sub _ PInf = NInf"
| "js_sub _ NInf = PInf"

fun js_mul :: "jsnum \<Rightarrow> jsnum \<Rightarrow> jsnum" where
  "js_mul NaN _ = NaN"
| "js_mul _ NaN = NaN"
| "js_mul (Fin a) (Fin b) = binary64 (a * b)"
| "js_mul PInf (Fin b) = (if b = 0 then NaN else if 0 < b then PInf else NInf)"
| "js_mul NInf (Fin b) = (if b = 0 then NaN else if 0 < b then NInf else PInf)"
| "js_mul (Fin a) PInf = (if a = 0 then NaN else if 0 < a then PInf else NInf)"
| "js_mul (Fin a) NInf = (if a = 0 then NaN else if 0 < a then NInf else PInf)"
| "js_mul PInf PInf = PInf"
| "js_mul NInf NInf = PInf"
| "js_mul PInf NInf = NInf"
| "js_mul NInf PInf = NInf"

text \<open>
  Division. A finite nonzero value divided by zero is an infinity and \<open>0 / 0\<close> is
  \<open>NaN\<close>; a zero divisor is taken to be \<open>+0\<close>.
\<close>

fun js_div :: "jsnum \<Rightarrow> jsnum \<Rightarrow> jsnum" where
  "js_div NaN _ = NaN"
| "js_div _ NaN = NaN"
| "js_div (Fin a) (Fin b) =
     (if b = 0 then (if a = 0 then NaN else if 0 < a then PInf else NInf)
      else binary64 (a / b))"
| "js_div (Fin a) _ = Fin 0"
| "js_div PInf (Fin b) = (if 0 \<le> b then PInf else NInf)"
| "js_div NInf (Fin b) = (if 0 \<le> b then NInf else PInf)"
| "js_div _ _ = NaN"

definition MAX_SAFE_INTEGER :: jsnum where
  "MAX_SAFE_INTEGER = Fin (2 ^ 53 - 1)"

section \<open>The metrics classifier (DoraQuickCheck.tsx)\<close>

subsection \<open>Helpers\<close>

text \<open>
  \<^verbatim>\<open>const clampNum = (v, min = 0, max = Number.MAX_SAFE_INTEGER) =>
    isFinite(v) ? Math.min(Math.max(v, min), max) : 0;\<close>
\<close>

definition clampNum :: "jsnum \<Rightarrow> jsnum \<Rightarrow> jsnum \<Rightarrow> jsnum" where
  "clampNum v mn mx = (if isFinite v then Math_min (Math_max v mn) mx else Fin 0)"

text \<open>The thresholds \<open>DORA_FREQ.<tier>.minPerMonth\<close>.\<close>

definition DORA_FREQ_elite_minPerMonth :: jsnum where
  "DORA_FREQ_elite_minPerMonth = Fin 30"

definition DORA_FREQ_high_minPerMonth :: jsnum where
  "DORA_FREQ_high_minPerMonth = Fin 4"

definition DORA_FREQ_medium_minPerMonth :: jsnum where
  "DORA_FREQ_medium_minPerMonth = Fin 1"

definition DORA_FREQ_low_minPerMonth :: jsnum where
  "DORA_FREQ_low_minPerMonth = Fin 0"

text \<open>\<^verbatim>\<open>type DoraTier = "elite" | "high" | "medium" | "low" | "na"\<close>\<close>

datatype DoraTier = Elite | High | Medium | Low | Na

subsection \<open>Tier classification\<close>

definition freqTier :: "jsnum \<Rightarrow> DoraTier" where
  "freqTier perMonth =
     (if js_ge perMonth DORA_FREQ_elite_minPerMonth then Elite
      else if js_ge perMonth DORA_FREQ_high_minPerMonth then High
      else if js_ge perMonth DORA_FREQ_medium_minPerMonth then Medium
      else if js_gt perMonth (Fin 0) then Low
      else Na)"

text \<open>
  A \<open>number | null\<close> argument is a \<open>jsnum option\<close>, \<open>None\<close> being \<open>null\<close>. The
  thresholds \<open>0.15\<close> and \<open>0.3\<close> are compared by their decimal values: on every binary64
  argument this is the comparison with the Number the literal denotes
  (\<open>literal_thresholds\<close> below).
\<close>

fun cfrTier :: "jsnum option \<Rightarrow> DoraTier" where
  "cfrTier None = Na"
| "cfrTier (Some c) =
     (if js_le c (Fin 0.15) then Elite
      else if js_le c (Fin 0.3) then Medium
      else Low)"

fun leadTier :: "jsnum option \<Rightarrow> DoraTier" where
  "leadTier None = Na"
| "leadTier (Some days) =
     (if js_le days (Fin 1) then Elite
      else if js_le days (Fin 7) then High
      else if js_le days (Fin 30) then Medium
      else Low)"

fun mttrTier :: "jsnum option \<Rightarrow> DoraTier" where
  "mttrTier None = Na"
| "mttrTier (Some hours) =
     (if js_le hours (Fin 1) then Elite
      else if js_le hours (Fin 24) then High
      else if js_le hours (js_mul (Fin 24) (Fin 7)) then Medium
      else Low)"

subsection \<open>The form fields\<close>

text \<open>
  Each of the six answers is held as \<open>number | ""\<close>: a \<open>jsnum option\<close>, \<open>None\<close> being the
  empty string. The text \<open>v\<close> that the input element hands to \<open>onChange\<close> is seen through
  the two things the handler observes of it: whether it is the empty string
  (\<open>EmptyText\<close>), and otherwise its numeric conversion \<open>+v\<close> (\<open>Text n\<close>, where \<open>n\<close> is
  \<open>NaN\<close> for text that is not numeric).
\<close>

datatype text_input = EmptyText | Text jsnum

text \<open>\<^verbatim>\<open>onChange: (v: string) => setX(v === "" ? "" : clampNum(+v))\<close>, the same for all six fields.\<close>

fun onChange :: "text_input \<Rightarrow> jsnum option" where
  "onChange EmptyText = None"
| "onChange (Text n) = Some (clampNum n (Fin 0) MAX_SAFE_INTEGER)"

record answers =
  deploys :: "jsnum option"
  team :: "jsnum option"
  squads :: "jsnum option"
  errors :: "jsnum option"
  leadDays :: "jsnum option"
  mttrHours :: "jsnum option"

text \<open>The initial \<open>useState\<close> values.\<close>

definition initial_answers :: answers where
  "initial_answers =
     \<lparr>deploys = Some (Fin 12), team = Some (Fin 20), squads = Some (Fin 4),
      errors = Some (Fin 2), leadDays = Some (Fin 3), mttrHours = Some (Fin 8)\<rparr>"

text \<open>
  \<open>validNumbers\<close> returns \<^verbatim>\<open>{ d, t, s: s || 1, e, ld, mh }\<close>; the fields are named
  \<open>num_d\<close>, \<open>num_t\<close>, \<open>num_s\<close>, \<open>num_e\<close>, \<open>num_ld\<close>, \<open>num_mh\<close> here.
\<close>

record valid_numbers =
  num_d :: jsnum
  num_t :: jsnum
  num_s :: jsnum
  num_e :: jsnum
  num_ld :: "jsnum option"
  num_mh :: "jsnum option"

text \<open>\<^verbatim>\<open>typeof x === "number" ? x : dflt\<close>\<close>

fun number_or :: "jsnum option \<Rightarrow> jsnum \<Rightarrow> jsnum" where
  "number_or (Some n) dflt = n"
| "number_or None dflt = dflt"

text \<open>\<^verbatim>\<open>x || dflt\<close> on Numbers\<close>

definition or_else :: "jsnum \<Rightarrow> jsnum \<Rightarrow> jsnum" where
  "or_else x dflt = (if truthy x then x else dflt)"

definition validNumbers :: "answers \<Rightarrow> valid_numbers" where
  "validNumbers a =
     (let d = number_or (deploys a) (Fin 0);
          t = number_or (team a) (Fin 0);
          s = number_or (squads a) (Fin 1);
          e = number_or (errors a) (Fin 0);
          ld = leadDays a;
          mh = mttrHours a
      in \<lparr>num_d = d, num_t = t, num_s = or_else s (Fin 1), num_e = e,
          num_ld = ld, num_mh = mh\<rparr>)"

subsection \<open>Derived metrics\<close>

text \<open>The four normalised bar values, each the right-hand side of the local of that name.\<close>

definition freqPctOf :: "jsnum \<Rightarrow> jsnum" where
  "freqPctOf d = Math_min (Fin 100) (Math_round (js_mul (js_div d (Fin 30)) (Fin 100)))"

fun cfrPctOf :: "jsnum option \<Rightarrow> jsnum" where
  "cfrPctOf None = Fin 0"
| "cfrPctOf (Some c) =
     Math_max (Fin 0)
       (Math_round (js_mul (js_sub (Fin 1) (js_div c (binary64 0.3))) (Fin 100)))"

fun ltPctOf :: "jsnum option \<Rightarrow> jsnum" where
  "ltPctOf None = Fin 0"
| "ltPctOf (Some ld) =
     Math_max (Fin 0) (Math_min (Fin 100)
       (Math_round (js_mul (js_sub (Fin 1) (js_div (js_sub ld (Fin 1)) (Fin 29))) (Fin 100))))"

fun mttrPctOf :: "jsnum option \<Rightarrow> jsnum" where
  "mttrPctOf None = Fin 0"
| "mttrPctOf (Some mh) =
     Math_max (Fin 0) (Math_min (Fin 100)
       (Math_round (js_mul (js_sub (Fin 1)
          (js_div (js_sub mh (Fin 1)) (js_sub (Fin 168) (Fin 1)))) (Fin 100))))"

record metrics_out =
  perSquad :: jsnum
  perEng :: jsnum
  cfr :: "jsnum option"
  freq :: DoraTier
  cfrT :: DoraTier
  freqPct :: jsnum
  cfrPct :: jsnum
  ltT :: DoraTier
  mttrT :: DoraTier
  ltPct :: jsnum
  mttrPct :: jsnum

definition metrics :: "valid_numbers \<Rightarrow> metrics_out" where
  "metrics v =
     (let d = num_d v; t = num_t v; s = num_s v; e = num_e v;
          ld = num_ld v; mh = num_mh v;
          perSquad' = js_div d s;
          perEng' = (if truthy t then js_div d t else Fin 0);
          cfr' = (if js_gt d (Fin 0) then Some (Math_min (Fin 1) (js_div e d)) else None)
      in \<lparr>perSquad = perSquad', perEng = perEng', cfr = cfr',
          freq = freqTier d, cfrT = cfrTier cfr',
          freqPct = freqPctOf d, cfrPct = cfrPctOf cfr',
          ltT = leadTier ld, mttrT = mttrTier mh,
          ltPct = ltPctOf ld, mttrPct = mttrPctOf mh\<rparr>)"

text \<open>
  A set of answers as the form can hold it: every answer is the initial value or a result
  of \<open>clampNum\<close>, hence blank or a finite number that is not negative.
\<close>

fun coerced_field :: "jsnum option \<Rightarrow> bool" where
  "coerced_field None = True"
| "coerced_field (Some (Fin q)) = (0 \<le> q)"
| "coerced_field (Some _) = False"

definition coerced :: "answers \<Rightarrow> bool" where
  "coerced a \<longleftrightarrow>
     coerced_field (deploys a) \<and> coerced_field (team a) \<and> coerced_field (squads a) \<and>
     coerced_field (errors a) \<and> coerced_field (leadDays a) \<and> coerced_field (mttrHours a)"

section \<open>The report-export handler (api/send-results/route.ts)\<close>

subsection \<open>Values and built-in conversions\<close>

text \<open>
  A value as the handler meets it: what \<open>JSON.parse\<close> builds, and \<open>Undefined\<close> for a
  property that is absent. An object is the list of its own properties.
\<close>

datatype jsval =
    Undefined
  | Null
  | JBool bool
  | JNum jsnum
  | JStr string
  | JObj "(string \<times> jsval) list"
  | JArr "jsval list"

datatype js_error = SyntaxError | TypeError

text \<open>Sequencing of computations that may throw: the first exception ends the evaluation.\<close>

definition andThen :: "js_error + 'a \<Rightarrow> ('a \<Rightarrow> js_error + 'b) \<Rightarrow> js_error + 'b" where
  "andThen m f = (case m of Inl err \<Rightarrow> Inl err | Inr x \<Rightarrow> f x)"

text \<open>
  Reading a property \<open>o.k\<close>. Reading from \<open>undefined\<close> or \<open>null\<close> throws a \<open>TypeError\<close>;
  a property that is not there reads as \<open>undefined\<close>. The handler reads only names
  that no built-in prototype defines, so a primitive or an array has none of them.
\<close>

fun js_get :: "jsval \<Rightarrow> string \<Rightarrow> js_error + jsval" where
  "js_get Undefined k = Inl TypeError"
| "js_get Null k = Inl TypeError"
| "js_get (JObj props) k = Inr (case map_of props k of Some v \<Rightarrow> v | None \<Rightarrow> Undefined)"
| "js_get _ k = Inr Undefined"

text \<open>Truthiness of a value, as \<open>? :\<close> and \<open>||\<close> test it.\<close>

fun js_truthy :: "jsval \<Rightarrow> bool" where
  "js_truthy Undefined = False"
| "js_truthy Null = False"
| "js_truthy (JBool b) = b"
| "js_truthy (JNum n) = truthy n"
| "js_truthy (JStr s) = (s \<noteq> [])"
| "js_truthy _ = True"

text \<open>
  What the handler takes from the language and the platform, as parameters: the two
  readings of the clock (\<open>new Date().toLocaleString()\<close>, once per template), the
  formatting of Numbers (\<open>String(n)\<close> and \<open>n.toFixed(k)\<close>), the conversion of an object
  or array to a string and to a Number (which may throw), the conversion of a string to a
  Number, and \<open>toUpperCase\<close>. Every result below holds for all of them.
\<close>

record js_env =
  date_text :: string
  date_html :: string
  num_toString :: "jsnum \<Rightarrow> string"
  num_toFixed :: "jsnum \<Rightarrow> nat \<Rightarrow> string"
  obj_toString :: "jsval \<Rightarrow> js_error + string"
  obj_toNumber :: "jsval \<Rightarrow> js_error + jsnum"
  str_toNumber :: "string \<Rightarrow> jsnum"
  str_toUpperCase :: "string \<Rightarrow> string"

text \<open>\<open>String(v)\<close>, the conversion a template literal applies to each value.\<close>

fun ToString :: "js_env \<Rightarrow> jsval \<Rightarrow> js_error + string" where
  "ToString env Undefined = Inr ''undefined''"
| "ToString env Null = Inr ''null''"
| "ToString env (JBool b) = Inr (if b then ''true'' else ''false'')"
| "ToString env (JNum n) = Inr (num_toString env n)"
| "ToString env (JStr s) = Inr s"
| "ToString env v = obj_toString env v"

text \<open>\<open>Number(v)\<close>, the conversion \<open>*\<close> applies to its operands.\<close>

fun ToNumber :: "js_env \<Rightarrow> jsval \<Rightarrow> js_error + jsnum" where
  "ToNumber env Undefined = Inr NaN"
| "ToNumber env Null = Inr (Fin 0)"
| "ToNumber env (JBool b) = Inr (if b then Fin 1 else Fin 0)"
| "ToNumber env (JNum n) = Inr n"
| "ToNumber env (JStr s) = Inr (str_toNumber env s)"
| "ToNumber env v = obj_toNumber env v"

text \<open>
  \<open>v.toFixed(k)\<close>: a \<open>TypeError\<close> unless \<open>v\<close> is a Number (on \<open>undefined\<close> and \<open>null\<close> the
  property read throws, on any other value \<open>toFixed\<close> is not a function).
\<close>

fun call_toFixed :: "js_env \<Rightarrow> jsval \<Rightarrow> nat \<Rightarrow> js_error + string" where
  "call_toFixed env (JNum n) k = Inr (num_toFixed env n k)"
| "call_toFixed env _ k = Inl TypeError"

text \<open>\<open>v.toUpperCase()\<close>: a \<open>TypeError\<close> unless \<open>v\<close> is a string.\<close>

fun call_toUpperCase :: "js_env \<Rightarrow> jsval \<Rightarrow> js_error + string" where
  "call_toUpperCase env (JStr s) = Inr (str_toUpperCase env s)"
| "call_toUpperCase env _ = Inl TypeError"

subsection \<open>The interpolated values\<close>

text \<open>\<^verbatim>\<open>${o.k}\<close>\<close>

definition show_prop :: "js_env \<Rightarrow> jsval \<Rightarrow> string \<Rightarrow> js_error + string" where
  "show_prop env obj k = andThen (js_get obj k) (ToString env)"

text \<open>\<^verbatim>\<open>${o.k.toFixed(n)}\<close>\<close>

definition show_fixed :: "js_env \<Rightarrow> jsval \<Rightarrow> string \<Rightarrow> nat \<Rightarrow> js_error + string" where
  "show_fixed env obj k n = andThen (js_get obj k) (\<lambda>v. call_toFixed env v n)"

text \<open>\<^verbatim>\<open>${o.k.toUpperCase()}\<close>\<close>

definition show_upper :: "js_env \<Rightarrow> jsval \<Rightarrow> string \<Rightarrow> js_error + string" where
  "show_upper env obj k = andThen (js_get obj k) (call_toUpperCase env)"

text \<open>
  \<^verbatim>\<open>${metrics.cfr ? Math.round(metrics.cfr * 100) + '%' : 'N/A'}\<close>
  (the property is read twice; the reads have no effect, so the value is bound once).
\<close>

definition show_cfr :: "js_env \<Rightarrow> jsval \<Rightarrow> js_error + string" where
  "show_cfr env metrics_v =
     andThen (js_get metrics_v ''cfr'') (\<lambda>c.
       if js_truthy c
       then andThen (ToNumber env c) (\<lambda>n.
              Inr (num_toString env (Math_round (js_mul n (Fin 100))) @ ''%''))
       else Inr ''N/A'')"

text \<open>\<^verbatim>\<open>${o.k || 'N/A'}\<close>\<close>

definition show_or_na :: "js_env \<Rightarrow> jsval \<Rightarrow> string \<Rightarrow> js_error + string" where
  "show_or_na env obj k =
     andThen (js_get obj k) (\<lambda>v. ToString env (if js_truthy v then v else JStr ''N/A''))"

text \<open>A line of a template: the text before the value, the value, the text after it.\<close>

definition line :: "string \<Rightarrow> js_error + string \<Rightarrow> string \<Rightarrow> js_error + string" where
  "line pre val post = andThen val (\<lambda>s. Inr (pre @ s @ post))"

text \<open>
  The lines of a template are evaluated top to bottom; the first exception ends the
  evaluation.
\<close>

fun collect :: "(js_error + string) list \<Rightarrow> js_error + string list" where
  "collect [] = Inr []"
| "collect (x # xs) =
     andThen x (\<lambda>s. andThen (collect xs) (\<lambda>ss. Inr (s # ss)))"

text \<open>A line with two values (the tier badge of the HTML report).\<close>

definition line2 ::
  "string \<Rightarrow> js_error + string \<Rightarrow> string \<Rightarrow> js_error + string \<Rightarrow> string \<Rightarrow> js_error + string" where
  "line2 pre val1 mid val2 post =
     andThen val1 (\<lambda>a. andThen val2 (\<lambda>b. Inr (pre @ a @ mid @ b @ post)))"

subsection \<open>The two templates\<close>

text \<open>
  Each report is the list of the template's lines that interpolate a value, in the
  template's order. The constant lines between them (headings, the style sheet, the
  recommendations) are the same in every report and are left out.
\<close>

definition resultsText :: "js_env \<Rightarrow> jsval \<Rightarrow> jsval \<Rightarrow> jsval \<Rightarrow> js_error + string list" where
  \<open>resultsText env email results metrics_v = collect
    [line ''Email: '' (ToString env email) [],
     line ''Generated: '' (Inr (date_text env)) [],
     line ''Current Tier: '' (show_prop env metrics_v ''freqT'') [],
     line ''Deployments/month: '' (show_prop env results ''deploys'') [],
     line ''Per squad/month: '' (show_fixed env metrics_v ''perSquad'' 1) [],
     line ''Per engineer/month: '' (show_fixed env metrics_v ''perEng'' 2) [],
     line ''Current Tier: '' (show_prop env metrics_v ''cfrT'') [],
     line ''Production errors/month: '' (show_prop env results ''errors'') [],
     line ''CFR: '' (show_cfr env metrics_v) [],
     line ''Current Tier: '' (show_prop env metrics_v ''ltT'') [],
     line ''Lead time (days): '' (show_or_na env results ''leadDays'') [],
     line ''Current Tier: '' (show_prop env metrics_v ''mttrT'') [],
     line ''MTTR (hours): '' (show_or_na env results ''mttrHours'') [],
     line ''Team size: '' (show_prop env results ''team'') [],
     line ''Number of squads: '' (show_prop env results ''squads'') []]\<close>

definition tier_badge :: "js_env \<Rightarrow> jsval \<Rightarrow> string \<Rightarrow> js_error + string" where
  \<open>tier_badge env metrics_v k =
     line2 ''        <span class="tier tier-'' (show_prop env metrics_v k) ''">''
       (show_upper env metrics_v k) ''</span>''\<close>

definition resultsHtml :: "js_env \<Rightarrow> jsval \<Rightarrow> jsval \<Rightarrow> jsval \<Rightarrow> js_error + string list" where
  \<open>resultsHtml env email results metrics_v = collect
    [line ''        <p><strong>Email:</strong> '' (ToString env email) ''</p>'',
     line ''        <p><strong>Generated:</strong> '' (Inr (date_html env)) ''</p>'',
     tier_badge env metrics_v ''freqT'',
     line ''        <p>Deployments/month: <strong>'' (show_prop env results ''deploys'')
       ''</strong></p>'',
     line ''        <p>Per squad/month: <strong>'' (show_fixed env metrics_v ''perSquad'' 1)
       ''</strong></p>'',
     line ''        <p>Per engineer/month: <strong>'' (show_fixed env metrics_v ''perEng'' 2)
       ''</strong></p>'',
     tier_badge env metrics_v ''cfrT'',
     line ''        <p>Production errors/month: <strong>'' (show_prop env results ''errors'')
       ''</strong></p>'',
     line ''        <p>CFR: <strong>'' (show_cfr env metrics_v) ''</strong></p>'',
     tier_badge env metrics_v ''ltT'',
     line ''        <p>Lead time (days): <strong>'' (show_or_na env results ''leadDays'')
       ''</strong></p>'',
     tier_badge env metrics_v ''mttrT'',
     line ''        <p>MTTR (hours): <strong>'' (show_or_na env results ''mttrHours'')
       ''</strong></p>'',
     line ''        <p>Team size: <strong>'' (show_prop env results ''team'') ''</strong></p>'',
     line ''        <p>Number of squads: <strong>'' (show_prop env results ''squads'')
       ''</strong></p>'']\<close>

subsection \<open>The handler\<close>

record emailData =
  mail_to :: string
  mail_cc :: string
  mail_from :: string
  mail_subject :: string
  mail_text :: "string list"
  mail_html :: "string list"

text \<open>
  A request is what \<open>await request.json()\<close> gives: the parsed body, or the exception it
  throws.
\<close>

type_synonym NextRequest = "js_error + jsval"

text \<open>The body of the \<open>try\<close> block, up to the value that is logged.\<close>

definition try_block :: "js_env \<Rightarrow> NextRequest \<Rightarrow> js_error + emailData" where
  "try_block env request =
     andThen request (\<lambda>body.
     andThen (js_get body ''email'') (\<lambda>email.
     andThen (js_get body ''results'') (\<lambda>results.
     andThen (js_get body ''metrics'') (\<lambda>metrics_v.
     andThen (resultsText env email results metrics_v) (\<lambda>txt.
     andThen (resultsHtml env email results metrics_v) (\<lambda>html.
     andThen (ToString env email) (\<lambda>email_s.
       Inr \<lparr>mail_to = ''swanand@superlinearinsights.com'',
            mail_cc = ''vamsi@superlinearinsights.com'',
            mail_from = ''noreply@dora-check.com'',
            mail_subject = ''DORA Metrics Report - '' @ email_s,
            mail_text = txt,
            mail_html = html\<rparr>)))))))"

text \<open>A response of \<open>NextResponse.json\<close>: the status and the JSON body.\<close>

record response =
  status :: nat
  json :: jsval

datatype console = Log emailData | Error js_error

text \<open>
  \<open>POST\<close>: the response and what was written to the console. The result is a sum so that
  an exception leaving the handler would be an \<open>Inl\<close>.
\<close>

definition POST :: "js_env \<Rightarrow> NextRequest \<Rightarrow> js_error + response \<times> console" where
  "POST env request =
     (case try_block env request of
        Inr data \<Rightarrow>
          Inr (\<lparr>status = 200,
                json = JObj [(''success'', JBool True),
                             (''message'', JStr ''Results captured and email queued'')]\<rparr>,
               Log data)
      | Inl err \<Rightarrow>
          Inr (\<lparr>status = 500, json = JObj [(''error'', JStr ''Failed to send email'')]\<rparr>,
               Error err))"

section \<open>The specification's formulas\<close>

text \<open>
  Following the specification's words, in the arithmetic of Numbers; the integer is the
  one \<open>Math.round\<close> gives. \<open>capped\<close> bounds a value from above, \<open>floored\<close> from below.
\<close>

definition capped :: "rat \<Rightarrow> jsnum \<Rightarrow> jsnum" where
  "capped hi x = Math_min (Fin hi) x"

definition floored :: "rat \<Rightarrow> jsnum \<Rightarrow> jsnum" where
  "floored lo x = Math_max (Fin lo) x"

text \<open>frequency: \<open>value/30*100\<close> capped at 100\<close>

definition progressPercent_frequency :: "jsnum \<Rightarrow> jsnum" where
  "progressPercent_frequency val =
     capped 100 (Math_round (js_mul (js_div val (Fin 30)) (Fin 100)))"

text \<open>change-failure-rate: \<open>(1 - cfr/0.30)*100\<close> floored at 0 (0 when null)\<close>

fun progressPercent_cfr :: "jsnum option \<Rightarrow> jsnum" where
  "progressPercent_cfr None = Fin 0"
| "progressPercent_cfr (Some c) =
     floored 0 (Math_round (js_mul (js_sub (Fin 1) (js_div c (binary64 0.30))) (Fin 100)))"

text \<open>lead-time: \<open>(1 - (days-1)/29)*100\<close> clamped to \<open>[0,100]\<close> (0 when null)\<close>

fun progressPercent_leadTime :: "jsnum option \<Rightarrow> jsnum" where
  "progressPercent_leadTime None = Fin 0"
| "progressPercent_leadTime (Some days) =
     floored 0 (capped 100
       (Math_round (js_mul (js_sub (Fin 1) (js_div (js_sub days (Fin 1)) (Fin 29))) (Fin 100))))"

text \<open>mttr: \<open>(1 - (hours-1)/167)*100\<close> clamped to \<open>[0,100]\<close> (0 when null)\<close>

fun progressPercent_mttr :: "jsnum option \<Rightarrow> jsnum" where
  "progressPercent_mttr None = Fin 0"
| "progressPercent_mttr (Some hours) =
     floored 0 (capped 100
       (Math_round (js_mul (js_sub (Fin 1) (js_div (js_sub hours (Fin 1)) (Fin 167))) (Fin 100))))"

text \<open>An integer from 0 to 100.\<close>

fun is_percentage :: "jsnum \<Rightarrow> bool" where
  "is_percentage (Fin q) = (q = of_int \<lfloor>q\<rfloor> \<and> 0 \<le> q \<and> q \<le> 100)"
| "is_percentage _ = False"

section \<open>Sample data\<close>

text \<open>
  A request as the form would send it for 12 deployments, 12 engineers, 12 squads, no
  production errors, and a lead time and a time to restore of zero; and an environment
  that formats the numbers of this request as the language does.
\<close>

definition example_request :: NextRequest where
  "example_request = Inr (JObj
     [(''email'', JStr ''dev@example.com''),
      (''results'', JObj
         [(''deploys'', JNum (Fin 12)), (''team'', JNum (Fin 12)), (''squads'', JNum (Fin 12)),
          (''errors'', JNum (Fin 0)), (''leadDays'', JNum (Fin 0)),
          (''mttrHours'', JNum (Fin 0))]),
      (''metrics'', JObj
         [(''freqT'', JStr ''high''), (''perSquad'', JNum (Fin 1)), (''perEng'', JNum (Fin 1)),
          (''cfrT'', JStr ''elite''), (''cfr'', JNum (Fin 0)), (''ltT'', JStr ''elite''),
          (''mttrT'', JStr ''elite'')])])"

definition example_env :: js_env where
  "example_env =
     \<lparr>date_text = ''11/3/2026, 1:29:00 PM'',
      date_html = ''11/3/2026, 1:29:00 PM'',
      num_toString = (\<lambda>n. if n = Fin 0 then ''0'' else ''12''),
      num_toFixed = (\<lambda>n k. if k = 1 then ''1.0'' else ''1.00''),
      obj_toString = (\<lambda>v. Inr ''[object Object]''),
      obj_toNumber = (\<lambda>v. Inr NaN),
      str_toNumber = (\<lambda>s. NaN),
      str_toUpperCase = (\<lambda>s. if s = ''high'' then ''HIGH'' else ''ELITE'')\<rparr>"

text \<open>A request whose body has no \<open>metrics\<close>.\<close>

definition request_without_metrics :: NextRequest where
  "request_without_metrics =
     Inr (JObj [(''email'', JStr ''dev@example.com''), (''results'', JObj [])])"

section \<open>Auxiliary facts\<close>

subsection \<open>Rounding to binary64\<close>

lemma pos_quotient:
  assumes "0 < a"
  shows "0 < fst (quotient_of a)" "0 < snd (quotient_of a)"
    "a = of_int (fst (quotient_of a)) / of_int (snd (quotient_of a))"
proof -
  obtain n d where nd: "quotient_of a = (n, d)" by (cases "quotient_of a")
  have d: "0 < d" using quotient_of_denom_pos[OF nd] .
  have e: "a = of_int n / of_int d" using quotient_of_div[OF nd] .
  with assms d have "0 < n"
    by (simp add: zero_less_divide_iff)
  with d e nd show "0 < fst (quotient_of a)" "0 < snd (quotient_of a)"
    "a = of_int (fst (quotient_of a)) / of_int (snd (quotient_of a))"
    by simp_all
qed

lemma bitlen_powi:
  assumes "0 < n"
  shows "(2::rat) powi (bitlen n - 1) \<le> of_int n" "of_int n < (2::rat) powi (bitlen n)"
proof -
  from bitlen_bounds[OF assms] have b: "2 ^ nat (bitlen n - 1) \<le> n" "n < 2 ^ nat (bitlen n)"
    by simp_all
  have ge1: "1 \<le> bitlen n"
    using assms bitlen_eq_zero_iff[of n] bitlen_nonneg[of n] by linarith
  from b(1) have "(of_int (2 ^ nat (bitlen n - 1)) :: rat) \<le> of_int n"
    by (simp only: of_int_le_iff)
  then show "(2::rat) powi (bitlen n - 1) \<le> of_int n"
    using ge1 by (simp add: power_int_def)
  from b(2) have "(of_int n :: rat) < of_int (2 ^ nat (bitlen n))"
    by (simp only: of_int_less_iff)
  then show "of_int n < (2::rat) powi (bitlen n)"
    using ge1 by (simp add: power_int_def)
qed

lemma ilog2_bounds:
  assumes "0 < a"
  shows "2 powi (ilog2 a) \<le> a" "a < 2 powi (ilog2 a + 1)"
proof -
  define n where "n = fst (quotient_of a)"
  define d where "d = snd (quotient_of a)"
  define k where "k = bitlen n - bitlen d"
  from pos_quotient[OF assms] have n: "0 < n" and d: "0 < d" and a: "a = of_int n / of_int d"
    by (simp_all add: n_def d_def)
  have up: "a < 2 powi (k + 1)"
  proof -
    have "a < 2 powi (bitlen n) / 2 powi (bitlen d - 1)"
      unfolding a using bitlen_powi(2)[OF n] bitlen_powi(1)[OF d] d n
      by (intro frac_less) simp_all
    also have "\<dots> = 2 powi (bitlen n - (bitlen d - 1))"
      by (simp add: power_int_diff)
    also have "bitlen n - (bitlen d - 1) = k + 1" by (simp add: k_def)
    finally show ?thesis .
  qed
  have lo: "2 powi (k - 1) \<le> a"
  proof -
    have "2 powi (bitlen n - 1) / 2 powi (bitlen d) \<le> a"
      unfolding a using bitlen_powi(1)[OF n] bitlen_powi(2)[OF d] d n
      by (intro frac_le) simp_all
    moreover have "(2::rat) powi (bitlen n - 1) / 2 powi (bitlen d) =
        2 powi (bitlen n - 1 - bitlen d)"
      by (simp add: power_int_diff)
    moreover have "bitlen n - 1 - bitlen d = k - 1" by (simp add: k_def)
    ultimately show ?thesis by simp
  qed
  have il: "ilog2 a = (if 2 powi k \<le> a then k else k - 1)"
    by (simp add: ilog2_def Let_def k_def n_def d_def)
  show "2 powi (ilog2 a) \<le> a"
    using lo by (simp add: il)
  show "a < 2 powi (ilog2 a + 1)"
    using up by (simp add: il)
qed

lemma ilog2_mono:
  assumes "0 < a" "a \<le> b"
  shows "ilog2 a \<le> ilog2 b"
proof (rule ccontr)
  assume "\<not> ilog2 a \<le> ilog2 b"
  then have "ilog2 b + 1 \<le> ilog2 a" by simp
  then have "(2::rat) powi (ilog2 b + 1) \<le> 2 powi (ilog2 a)"
    by (intro power_int_increasing) simp_all
  also have "\<dots> \<le> a" using ilog2_bounds(1)[OF assms(1)] .
  also have "a \<le> b" by fact
  also have "b < 2 powi (ilog2 b + 1)"
    using ilog2_bounds(2)[of b] assms by simp
  finally show False by simp
qed

lemma overflows_iff: "overflows r \<longleftrightarrow> 2 ^ 1024 \<le> r"
proof
  assume o: "overflows r"
  then have r: "0 < r" and e: "1024 \<le> ilog2 r" by (simp_all add: overflows_def)
  have "(2::rat) ^ 1024 = 2 powi 1024" by (simp add: power_int_def)
  also have "\<dots> \<le> 2 powi (ilog2 r)"
    using e by (intro power_int_increasing) simp_all
  also have "\<dots> \<le> r" using ilog2_bounds(1)[OF r] .
  finally show "2 ^ 1024 \<le> r" .
next
  assume h: "2 ^ 1024 \<le> r"
  have p: "(0::rat) < 2 ^ 1024" by simp
  with h have r: "0 < r" by linarith
  have "\<not> ilog2 r < 1024"
  proof
    assume "ilog2 r < 1024"
    then have "ilog2 r + 1 \<le> 1024" by simp
    then have "(2::rat) powi (ilog2 r + 1) \<le> 2 powi 1024"
      by (intro power_int_increasing) simp_all
    also have "\<dots> = 2 ^ 1024" by (simp add: power_int_def)
    finally have "r < 2 ^ 1024" using ilog2_bounds(2)[OF r] by linarith
    with h show False by simp
  qed
  with r show "overflows r" by (simp add: overflows_def)
qed

lemma overflows_mono: "overflows r \<Longrightarrow> r \<le> r' \<Longrightarrow> overflows r'"
  unfolding overflows_iff by linarith

lemma round_half_even_bounds:
  "\<lfloor>x\<rfloor> \<le> round_half_even x" "round_half_even x \<le> \<lfloor>x\<rfloor> + 1"
  by (simp_all add: round_half_even_def Let_def)

lemma round_half_even_of_int [simp]: "round_half_even (of_int n) = n"
  by (simp add: round_half_even_def)

lemma round_half_even_mono:
  assumes "x \<le> y"
  shows "round_half_even x \<le> round_half_even y"
proof (cases "\<lfloor>x\<rfloor> = \<lfloor>y\<rfloor>")
  case True
  have "x - of_int \<lfloor>x\<rfloor> \<le> y - of_int \<lfloor>x\<rfloor>" using assms by simp
  then show ?thesis
    using True by (auto simp: round_half_even_def Let_def)
next
  case False
  with assms have "\<lfloor>x\<rfloor> + 1 \<le> \<lfloor>y\<rfloor>"
    using floor_mono[OF assms] by linarith
  with round_half_even_bounds(2)[of x] round_half_even_bounds(1)[of y]
  show ?thesis by linarith
qed

lemma round_at_mono: "a \<le> b \<Longrightarrow> round_at p a \<le> round_at p b"
  unfolding round_at_def
  by (intro mult_right_mono round_half_even_mono divide_right_mono iffD2[OF of_int_le_iff])
    simp_all

lemma round_at_multiple: "round_at p (of_int m * 2 powi p) = of_int m * 2 powi p"
  by (simp add: round_at_def)

lemma round_at_powi:
  assumes "p \<le> e"
  shows "round_at p (2 powi e) = 2 powi e"
proof -
  have "(2::rat) powi e = 2 powi (e - p) * 2 powi p"
    by (simp flip: power_int_add)
  also have "(2::rat) powi (e - p) = of_int (2 ^ nat (e - p))"
    using assms by (simp add: power_int_def)
  finally have "(2::rat) powi e = of_int (2 ^ nat (e - p)) * 2 powi p" .
  then show ?thesis
    using round_at_multiple[of p "2 ^ nat (e - p)"] by simp
qed

lemma round_at_zero [simp]: "round_at p 0 = 0"
  using round_at_multiple[of p 0] by simp

lemma round_at_nonneg: "0 \<le> a \<Longrightarrow> 0 \<le> round_at p a"
  using round_at_mono[of 0 a p] by simp

lemma round_magnitude_nonneg: "0 \<le> a \<Longrightarrow> 0 \<le> round_magnitude a"
  by (simp add: round_magnitude_def round_at_nonneg)

lemma round_magnitude_mono:
  assumes "0 \<le> a" "a \<le> b"
  shows "round_magnitude a \<le> round_magnitude b"
proof (cases "a = 0")
  case True
  then show ?thesis
    using round_magnitude_nonneg[of b] assms by (simp add: round_magnitude_def)
next
  case False
  with assms have a: "0 < a" and b: "0 < b" by simp_all
  have le: "ulp_exponent a \<le> ulp_exponent b"
    using ilog2_mono[OF a assms(2)] by (simp add: ulp_exponent_def)
  show ?thesis
  proof (cases "ulp_exponent a = ulp_exponent b")
    case True
    then show ?thesis
      using a b round_at_mono[OF assms(2)] by (simp add: round_magnitude_def)
  next
    case False
    with le have lt: "ulp_exponent a < ulp_exponent b" by simp
    then have pb: "ulp_exponent b = ilog2 b - 52" and ee: "ilog2 a < ilog2 b"
      by (auto simp: ulp_exponent_def max_def split: if_splits)
    have pa: "ulp_exponent a \<le> ilog2 b"
      using lt pb by simp
    have "a < 2 powi (ilog2 a + 1)" using ilog2_bounds(2)[OF a] .
    also have "\<dots> \<le> 2 powi (ilog2 b)"
      using ee by (intro power_int_increasing) simp_all
    finally have "a \<le> 2 powi (ilog2 b)" by simp
    then have "round_at (ulp_exponent a) a \<le> round_at (ulp_exponent a) (2 powi (ilog2 b))"
      by (rule round_at_mono)
    also have "\<dots> = 2 powi (ilog2 b)"
      using pa by (rule round_at_powi)
    also have "\<dots> = round_at (ulp_exponent b) (2 powi (ilog2 b))"
      using pb by (intro round_at_powi[symmetric]) simp
    also have "\<dots> \<le> round_at (ulp_exponent b) b"
      using ilog2_bounds(1)[OF b] by (rule round_at_mono)
    finally show ?thesis
      using a b by (simp add: round_magnitude_def)
  qed
qed

lemma binary64_not_NaN [simp]: "binary64 q \<noteq> NaN"
  by (simp add: binary64_def Let_def)

lemma binary64_zero [simp]: "binary64 0 = Fin 0"
  by (simp add: binary64_def round_magnitude_def overflows_def)

lemma binary64_mono:
  assumes "p \<le> q"
  shows "js_le (binary64 p) (binary64 q)"
proof -
  consider "0 < p" | "p \<le> 0" "0 < q" | "q \<le> 0" by linarith
  then show ?thesis
  proof cases
    case 1
    with assms have q: "0 < q" by simp
    have m: "round_magnitude \<bar>p\<bar> \<le> round_magnitude \<bar>q\<bar>"
      using 1 assms by (intro round_magnitude_mono) simp_all
    show ?thesis
      using 1 q m overflows_mono[OF _ m] by (auto simp: binary64_def Let_def)
  next
    case 2
    have "0 \<le> round_magnitude \<bar>p\<bar>" "0 \<le> round_magnitude \<bar>q\<bar>"
      by (simp_all add: round_magnitude_nonneg)
    then show ?thesis
      using 2 by (auto simp: binary64_def Let_def)
  next
    case 3
    with assms have p: "p \<le> 0" by simp
    have m: "round_magnitude \<bar>q\<bar> \<le> round_magnitude \<bar>p\<bar>"
      using 3 assms by (intro round_magnitude_mono) simp_all
    show ?thesis
      using 3 p m overflows_mono[OF _ m] by (auto simp: binary64_def Let_def)
  qed
qed

lemma binary64_nonneg: "0 \<le> q \<Longrightarrow> js_le (Fin 0) (binary64 q)"
  using binary64_mono[of 0 q] by simp

lemma binary64_consts:
  "binary64 1 = Fin 1" "binary64 12 = Fin 12" "binary64 24 = Fin 24"
  "binary64 100 = Fin 100" "binary64 167 = Fin 167" "binary64 168 = Fin 168"
  "binary64 0.3 = Fin (5404319552844595 / 18014398509481984)"
  "binary64 0.15 = Fin (5404319552844595 / 36028797018963968)"
  "binary64 0.6 = Fin (5404319552844595 / 9007199254740992)"
  "binary64 (6 / 10) = Fin (5404319552844595 / 9007199254740992)"
  "binary64 (2 / 12) = Fin (6004799503160661 / 36028797018963968)"
  by code_simp+

subsection \<open>Comparisons against a finite bound\<close>

lemma js_le_Fin_iff:
  "js_le p (Fin q) \<longleftrightarrow> (case p of Fin a \<Rightarrow> a \<le> q | NInf \<Rightarrow> True | _ \<Rightarrow> False)"
  by (cases p) simp_all

lemma js_lt_Fin_iff:
  "js_lt p (Fin q) \<longleftrightarrow> (case p of Fin a \<Rightarrow> a < q | NInf \<Rightarrow> True | _ \<Rightarrow> False)"
  by (cases p) simp_all

lemma js_ge_Fin_iff:
  "js_ge p (Fin q) \<longleftrightarrow> (case p of Fin a \<Rightarrow> q \<le> a | PInf \<Rightarrow> True | _ \<Rightarrow> False)"
  by (cases p) (simp_all add: js_ge_def)

lemma js_gt_Fin_iff:
  "js_gt p (Fin q) \<longleftrightarrow> (case p of Fin a \<Rightarrow> q < a | PInf \<Rightarrow> True | _ \<Rightarrow> False)"
  by (cases p) (simp_all add: js_gt_def)

lemma truthy_iff: "truthy n \<longleftrightarrow> \<not> (n = Fin 0 \<or> n = NaN)"
  by (cases n) simp_all

subsection \<open>The tiers by case of the argument\<close>

lemma freqTier_cases:
  "freqTier p = (case p of
      Fin a \<Rightarrow> (if 30 \<le> a then Elite else if 4 \<le> a then High else if 1 \<le> a then Medium
                else if 0 < a then Low else Na)
    | PInf \<Rightarrow> Elite | _ \<Rightarrow> Na)"
  by (cases p)
    (simp_all add: freqTier_def DORA_FREQ_elite_minPerMonth_def DORA_FREQ_high_minPerMonth_def
      DORA_FREQ_medium_minPerMonth_def js_ge_def js_gt_def)

lemma cfrTier_cases:
  "cfrTier (Some p) = (case p of
      Fin a \<Rightarrow> (if a \<le> 0.15 then Elite else if a \<le> 0.3 then Medium else Low)
    | NInf \<Rightarrow> Elite | _ \<Rightarrow> Low)"
  by (cases p) simp_all

lemma cfrTier_not_High: "cfrTier x \<noteq> High"
  by (cases x) auto

lemma leadTier_cases:
  "leadTier (Some p) = (case p of
      Fin a \<Rightarrow> (if a \<le> 1 then Elite else if a \<le> 7 then High else if a \<le> 30 then Medium else Low)
    | NInf \<Rightarrow> Elite | _ \<Rightarrow> Low)"
  by (cases p) simp_all

subsection \<open>The fields of \<open>validNumbers\<close> and \<open>metrics\<close>\<close>

lemma validNumbers_sel:
  "num_d (validNumbers a) = number_or (deploys a) (Fin 0)"
  "num_t (validNumbers a) = number_or (team a) (Fin 0)"
  "num_s (validNumbers a) = or_else (number_or (squads a) (Fin 1)) (Fin 1)"
  "num_e (validNumbers a) = number_or (errors a) (Fin 0)"
  "num_ld (validNumbers a) = leadDays a"
  "num_mh (validNumbers a) = mttrHours a"
  by (simp_all add: validNumbers_def Let_def)

lemma metrics_sel:
  "perSquad (metrics v) = js_div (num_d v) (num_s v)"
  "perEng (metrics v) = (if truthy (num_t v) then js_div (num_d v) (num_t v) else Fin 0)"
  "cfr (metrics v) =
     (if js_gt (num_d v) (Fin 0) then Some (Math_min (Fin 1) (js_div (num_e v) (num_d v)))
      else None)"
  "freq (metrics v) = freqTier (num_d v)"
  "cfrT (metrics v) = cfrTier (cfr (metrics v))"
  "ltT (metrics v) = leadTier (num_ld v)"
  "mttrT (metrics v) = mttrTier (num_mh v)"
  "freqPct (metrics v) = freqPctOf (num_d v)"
  "cfrPct (metrics v) = cfrPctOf (cfr (metrics v))"
  "ltPct (metrics v) = ltPctOf (num_ld v)"
  "mttrPct (metrics v) = mttrPctOf (num_mh v)"
  by (simp_all add: metrics_def Let_def)

subsection \<open>Comparison with a literal threshold\<close>

lemma literal_thresholds:
  assumes "binary64 c = Fin c"
  shows "js_le (Fin c) (binary64 0.15) \<longleftrightarrow> js_le (Fin c) (Fin 0.15)"
    and "js_le (Fin c) (binary64 0.3) \<longleftrightarrow> js_le (Fin c) (Fin 0.3)"
proof -
  have a: "c \<le> 0.15 \<Longrightarrow> c \<le> 5404319552844595 / 36028797018963968"
    using binary64_mono[of c "0.15"] assms unfolding binary64_consts by simp
  have b: "c \<le> 0.3 \<Longrightarrow> c \<le> 5404319552844595 / 18014398509481984"
    using binary64_mono[of c "0.3"] assms unfolding binary64_consts by simp
  show "js_le (Fin c) (binary64 0.15) \<longleftrightarrow> js_le (Fin c) (Fin 0.15)"
    unfolding binary64_consts using a by auto
  show "js_le (Fin c) (binary64 0.3) \<longleftrightarrow> js_le (Fin c) (Fin 0.3)"
    unfolding binary64_consts using b by auto
qed

subsection \<open>Order and the arithmetic operations\<close>

lemma js_le_self: "js_le x x \<longleftrightarrow> x \<noteq> NaN"
  by (cases x) simp_all

lemma js_le_PInf [simp]: "js_le x PInf \<longleftrightarrow> x \<noteq> NaN"
  by (cases x) simp_all

lemma js_le_NInf [simp]: "js_le NInf x \<longleftrightarrow> x \<noteq> NaN"
  by (cases x) simp_all

lemma js_le_not_NaN: "js_le x y \<Longrightarrow> x \<noteq> NaN \<and> y \<noteq> NaN"
  by (cases x; cases y) simp_all

lemma js_div_mono:
  assumes "0 < c" "js_le x y"
  shows "js_le (js_div x (Fin c)) (js_div y (Fin c))"
proof (cases x; cases y)
  fix a b assume xy: "x = Fin a" "y = Fin b"
  with assms have "a / c \<le> b / c" by (simp add: divide_right_mono)
  then show ?thesis using xy assms(1) by (simp add: binary64_mono)
qed (use assms in simp_all)

lemma js_mul_mono:
  assumes "0 < c" "js_le x y"
  shows "js_le (js_mul x (Fin c)) (js_mul y (Fin c))"
proof (cases x; cases y)
  fix a b assume xy: "x = Fin a" "y = Fin b"
  with assms have "a * c \<le> b * c" by (simp add: mult_right_mono)
  then show ?thesis using xy by (simp add: binary64_mono)
qed (use assms in simp_all)

lemma js_sub_left_mono:
  assumes "js_le x y"
  shows "js_le (js_sub x (Fin c)) (js_sub y (Fin c))"
proof (cases x; cases y)
  fix a b assume xy: "x = Fin a" "y = Fin b"
  with assms have "a - c \<le> b - c" by simp
  then show ?thesis using xy by (simp add: binary64_mono)
qed (use assms in simp_all)

lemma js_sub_right_antimono:
  assumes "js_le x y"
  shows "js_le (js_sub (Fin c) y) (js_sub (Fin c) x)"
proof (cases x; cases y)
  fix a b assume xy: "x = Fin a" "y = Fin b"
  with assms have "c - b \<le> c - a" by simp
  then show ?thesis using xy by (simp add: binary64_mono)
qed (use assms in simp_all)

lemma Math_round_mono:
  assumes "js_le x y"
  shows "js_le (Math_round x) (Math_round y)"
proof (cases x; cases y)
  fix a b assume xy: "x = Fin a" "y = Fin b"
  with assms have "\<lfloor>a + 1 / 2\<rfloor> \<le> \<lfloor>b + 1 / 2\<rfloor>" by (intro floor_mono) simp
  then show ?thesis using xy by simp
qed (use assms in simp_all)

lemma Math_min_mono:
  assumes "js_le x y"
  shows "js_le (Math_min (Fin c) x) (Math_min (Fin c) y)"
  using assms by (cases x; cases y) auto

lemma Math_max_mono:
  assumes "js_le x y"
  shows "js_le (Math_max (Fin c) x) (Math_max (Fin c) y)"
  using assms by (cases x; cases y) auto

subsection \<open>Monotonicity of the bar values\<close>

lemma freq_mono: "js_le x y \<Longrightarrow> js_le (freqPctOf x) (freqPctOf y)"
  unfolding freqPctOf_def
  by (intro Math_min_mono Math_round_mono js_mul_mono js_div_mono) simp_all

lemma cfr_mono: "js_le x y \<Longrightarrow> js_le (cfrPctOf (Some y)) (cfrPctOf (Some x))"
  unfolding cfrPctOf.simps binary64_consts
  by (intro Math_max_mono Math_round_mono js_mul_mono js_sub_right_antimono js_div_mono)
    simp_all

lemma lt_mono: "js_le x y \<Longrightarrow> js_le (ltPctOf (Some y)) (ltPctOf (Some x))"
  unfolding ltPctOf.simps
  by (intro Math_max_mono Math_min_mono Math_round_mono js_mul_mono js_sub_right_antimono
      js_div_mono js_sub_left_mono) simp_all

lemma js_sub_168_1: "js_sub (Fin 168) (Fin 1) = Fin 167"
  by (simp add: binary64_consts)

lemma mttr_mono: "js_le x y \<Longrightarrow> js_le (mttrPctOf (Some y)) (mttrPctOf (Some x))"
  unfolding mttrPctOf.simps js_sub_168_1
  by (intro Math_max_mono Math_min_mono Math_round_mono js_mul_mono js_sub_right_antimono
      js_div_mono js_sub_left_mono) simp_all

subsection \<open>The bar values are percentages\<close>

lemma is_percentage_int: "0 \<le> k \<Longrightarrow> k \<le> 100 \<Longrightarrow> is_percentage (Fin (of_int k))"
  by simp

lemma percentage_capped:
  assumes "js_le (Fin 0) y"
  shows "is_percentage (Math_min (Fin 100) (Math_round y))"
proof (cases y)
  case (Fin q)
  with assms have "0 \<le> q" by simp
  then have "0 \<le> \<lfloor>q + 1 / 2\<rfloor>" by simp
  then have "is_percentage (Fin (of_int (min 100 \<lfloor>q + 1 / 2\<rfloor>)))"
    by (intro is_percentage_int) simp_all
  moreover have "Math_min (Fin 100) (Math_round y) = Fin (of_int (min 100 \<lfloor>q + 1 / 2\<rfloor>))"
    using Fin by (simp add: min_def)
  ultimately show ?thesis by (simp only:)
qed (use assms in simp_all)

lemma percentage_floored:
  assumes "js_le y (Fin 100)"
  shows "is_percentage (Math_max (Fin 0) (Math_round y))"
proof (cases y)
  case (Fin q)
  with assms have "q + 1 / 2 < 101" by simp
  then have "\<lfloor>q + 1 / 2\<rfloor> \<le> 100" by (simp add: floor_less_iff flip: zle_add1_eq_le)
  then have "is_percentage (Fin (of_int (max 0 \<lfloor>q + 1 / 2\<rfloor>)))"
    by (intro is_percentage_int) simp_all
  moreover have "Math_max (Fin 0) (Math_round y) = Fin (of_int (max 0 \<lfloor>q + 1 / 2\<rfloor>))"
    using Fin by (simp add: max_def)
  ultimately show ?thesis by (simp only:)
qed (use assms in simp_all)

lemma percentage_clamped:
  assumes "y \<noteq> NaN"
  shows "is_percentage (Math_max (Fin 0) (Math_min (Fin 100) (Math_round y)))"
proof (cases y)
  case (Fin q)
  have "is_percentage (Fin (of_int (max 0 (min 100 \<lfloor>q + 1 / 2\<rfloor>))))"
    by (intro is_percentage_int) simp_all
  moreover have "Math_max (Fin 0) (Math_min (Fin 100) (Math_round y)) =
      Fin (of_int (max 0 (min 100 \<lfloor>q + 1 / 2\<rfloor>)))"
    using Fin by (simp add: max_def min_def)
  ultimately show ?thesis by (simp only:)
qed (use assms in simp_all)

lemma freqPctOf_percentage:
  assumes "0 \<le> d"
  shows "is_percentage (freqPctOf (Fin d))"
proof -
  have "js_le (Fin 0) (Fin d)" using assms by simp
  then have "js_le (js_mul (js_div (Fin 0) (Fin 30)) (Fin 100))
                   (js_mul (js_div (Fin d) (Fin 30)) (Fin 100))"
    by (intro js_mul_mono js_div_mono) simp_all
  then have "js_le (Fin 0) (js_mul (js_div (Fin d) (Fin 30)) (Fin 100))"
    by simp
  then show ?thesis
    unfolding freqPctOf_def by (rule percentage_capped)
qed

lemma cfrPctOf_percentage:
  assumes "0 \<le> c"
  shows "is_percentage (cfrPctOf (Some (Fin c)))"
proof -
  let ?t = "Fin (5404319552844595 / 18014398509481984)"
  have "js_le (Fin 0) (Fin c)" using assms by simp
  then have "js_le (js_mul (js_sub (Fin 1) (js_div (Fin c) ?t)) (Fin 100))
                   (js_mul (js_sub (Fin 1) (js_div (Fin 0) ?t)) (Fin 100))"
    by (intro js_mul_mono js_sub_right_antimono js_div_mono) simp_all
  then have "js_le (js_mul (js_sub (Fin 1) (js_div (Fin c) ?t)) (Fin 100)) (Fin 100)"
    by (simp add: binary64_consts)
  then show ?thesis
    unfolding cfrPctOf.simps binary64_consts by (rule percentage_floored)
qed

lemma ltPctOf_percentage: "is_percentage (ltPctOf (Some (Fin q)))"
proof -
  have "js_le (Fin q) (Fin q)" by simp
  then have "js_le
      (js_mul (js_sub (Fin 1) (js_div (js_sub (Fin q) (Fin 1)) (Fin 29))) (Fin 100))
      (js_mul (js_sub (Fin 1) (js_div (js_sub (Fin q) (Fin 1)) (Fin 29))) (Fin 100))"
    by (intro js_mul_mono js_sub_right_antimono js_div_mono js_sub_left_mono) simp_all
  then have "js_mul (js_sub (Fin 1) (js_div (js_sub (Fin q) (Fin 1)) (Fin 29))) (Fin 100) \<noteq> NaN"
    using js_le_self by blast
  then show ?thesis
    unfolding ltPctOf.simps by (rule percentage_clamped)
qed

lemma mttrPctOf_percentage: "is_percentage (mttrPctOf (Some (Fin q)))"
proof -
  have "js_le (Fin q) (Fin q)" by simp
  then have "js_le
      (js_mul (js_sub (Fin 1) (js_div (js_sub (Fin q) (Fin 1)) (Fin 167))) (Fin 100))
      (js_mul (js_sub (Fin 1) (js_div (js_sub (Fin q) (Fin 1)) (Fin 167))) (Fin 100))"
    by (intro js_mul_mono js_sub_right_antimono js_div_mono js_sub_left_mono) simp_all
  then have "js_mul (js_sub (Fin 1) (js_div (js_sub (Fin q) (Fin 1)) (Fin 167))) (Fin 100) \<noteq> NaN"
    using js_le_self by blast
  then show ?thesis
    unfolding mttrPctOf.simps js_sub_168_1 by (rule percentage_clamped)
qed

subsection \<open>The bar values and the specification's formulas\<close>

lemma freq_refines: "freqPctOf d = progressPercent_frequency d"
  by (simp add: freqPctOf_def progressPercent_frequency_def capped_def)

lemma cfr_refines: "cfrPctOf c = progressPercent_cfr c"
  by (cases c) (simp_all add: floored_def)

lemma lt_refines: "ltPctOf ld = progressPercent_leadTime ld"
  by (cases ld) (simp_all add: floored_def capped_def)

lemma mttr_refines: "mttrPctOf mh = progressPercent_mttr mh"
  by (cases mh) (simp_all add: floored_def capped_def binary64_consts)

subsection \<open>Coerced answers\<close>

lemma coerced_field_cases:
  assumes "coerced_field x"
  obtains "x = None" | q where "x = Some (Fin q)" "0 \<le> q"
  using assms by (cases x rule: coerced_field.cases) simp_all

lemma number_or_coerced:
  "coerced_field x \<Longrightarrow> 0 \<le> dflt \<Longrightarrow> \<exists>q. number_or x (Fin dflt) = Fin q \<and> 0 \<le> q"
  by (cases x rule: coerced_field.cases) simp_all

lemma cfr_value:
  assumes "0 \<le> d" "0 \<le> e"
  shows "(if js_gt (Fin d) (Fin 0) then Some (Math_min (Fin 1) (js_div (Fin e) (Fin d)))
          else None) = None \<or>
         (\<exists>c. (if js_gt (Fin d) (Fin 0) then Some (Math_min (Fin 1) (js_div (Fin e) (Fin d)))
               else None) = Some (Fin c) \<and> 0 \<le> c \<and> c \<le> 1)"
proof (cases "0 < d")
  case True
  have "0 \<le> e / d" using True assms by simp
  from binary64_nonneg[OF this] have "\<exists>c. Math_min (Fin 1) (binary64 (e / d)) = Fin c \<and> 0 \<le> c \<and> c \<le> 1"
    by (cases "binary64 (e / d)") auto
  then show ?thesis using True by (simp add: js_gt_def)
next
  case False
  then show ?thesis by (simp add: js_gt_def)
qed

lemma onChange_coerced: "coerced_field (onChange v)"
proof (cases v)
  case EmptyText
  then show ?thesis by simp
next
  case (Text n)
  then show ?thesis
    by (cases n) (simp_all add: clampNum_def MAX_SAFE_INTEGER_def)
qed

lemma onChange_not_finite: "\<not> isFinite n \<Longrightarrow> onChange (Text n) = Some (Fin 0)"
  by (simp add: clampNum_def)

subsection \<open>The metrics of the initial answers\<close>

lemma metrics_initial_answers:
  "metrics (validNumbers initial_answers) =
     \<lparr>perSquad = Fin 3, perEng = Fin (5404319552844595 / 9007199254740992),
      cfr = Some (Fin (6004799503160661 / 36028797018963968)),
      freq = High, cfrT = Medium, freqPct = Fin 40, cfrPct = Fin 44,
      ltT = High, mttrT = High, ltPct = Fin 93, mttrPct = Fin 96\<rparr>"
  by code_simp

text \<open>
  Answers at which the rounding of the intermediate results decides the bar: at the
  decimal values of the answers the exact values of the four formulas are 12.5, 57.5,
  57.5 and 57.5.
\<close>

lemma rounding_decides:
  "cfrPct (metrics (validNumbers
     (initial_answers\<lparr>deploys := Some (Fin 80), errors := Some (Fin 21)\<rparr>))) = Fin 12"
  "freqPctOf (Fin 17.25) = Fin 57"
  "ltPctOf (Some (binary64 13.325)) = Fin 57"
  "mttrPctOf (Some (binary64 71.975)) = Fin 57"
  by code_simp+

subsection \<open>Exceptions in the handler\<close>

lemma andThen_Inl [simp]: "andThen (Inl err) f = Inl err"
  by (simp add: andThen_def)

lemma andThen_Inr [simp]: "andThen (Inr x) f = f x"
  by (simp add: andThen_def)

lemma andThen_Inr_iff: "andThen m f = Inr y \<longleftrightarrow> (\<exists>x. m = Inr x \<and> f x = Inr y)"
  by (cases m) simp_all

lemma collect_Inr: "collect xs = Inr ys \<Longrightarrow> xs = map Inr ys"
proof (induction xs arbitrary: ys)
  case Nil
  then show ?case by simp
next
  case (Cons x xs)
  then obtain s ss where "x = Inr s" "collect xs = Inr ss" "ys = s # ss"
    by (auto simp: andThen_Inr_iff)
  with Cons.IH show ?case by simp
qed

lemma collect_member:
  assumes "collect xs = Inr ys" "Inr y \<in> set xs"
  shows "y \<in> set ys"
  using collect_Inr[OF assms(1)] assms(2) by auto

lemma collect_Inl:
  assumes "Inl err \<in> set xs"
  shows "\<exists>err'. collect xs = Inl err'"
proof (cases "collect xs")
  case (Inl a)
  then show ?thesis by blast
next
  case (Inr ys)
  from collect_Inr[OF this] assms show ?thesis by auto
qed

lemma try_block_Inr:
  assumes "try_block env request = Inr data"
  shows "\<exists>body email results metrics_v.
     request = Inr body \<and> js_get body ''email'' = Inr email \<and>
     js_get body ''results'' = Inr results \<and> js_get body ''metrics'' = Inr metrics_v \<and>
     resultsText env email results metrics_v = Inr (mail_text data) \<and>
     resultsHtml env email results metrics_v = Inr (mail_html data)"
  using assms unfolding try_block_def
  by (auto simp: andThen_Inr_iff)

lemma try_block_text_fails:
  assumes "js_get body ''email'' = Inr email" "js_get body ''results'' = Inr results"
    "js_get body ''metrics'' = Inr mv" "resultsText env email results mv = Inl err"
  shows "try_block env (Inr body) = Inl err"
  using assms by (simp add: try_block_def)

lemma js_get_others:
  assumes "js_get body k = Inr v"
  shows "\<exists>w. js_get body k' = Inr w"
  using assms by (cases body) simp_all

lemma metrics_missing:
  assumes "js_get body ''metrics'' = Inr mv" "mv = Undefined \<or> mv = Null"
  shows "\<exists>err. try_block env (Inr body) = Inl err"
proof -
  from js_get_others[OF assms(1)] obtain email results where
    g: "js_get body ''email'' = Inr email" "js_get body ''results'' = Inr results"
    by blast
  have "show_prop env mv ''freqT'' = Inl TypeError"
    using assms(2) by (auto simp: show_prop_def)
  then have "line ''Current Tier: '' (show_prop env mv ''freqT'') [] = Inl TypeError"
    by (simp add: line_def)
  then have "\<exists>err. resultsText env email results mv = Inl err"
    unfolding resultsText_def by (intro collect_Inl[of TypeError]) simp
  then show ?thesis
    using try_block_text_fails[OF g assms(1)] by blast
qed

lemma perSquad_not_number:
  assumes "js_get body ''metrics'' = Inr mv" "js_get mv ''perSquad'' = Inr v"
    "\<forall>n. v \<noteq> JNum n"
  shows "\<exists>err. try_block env (Inr body) = Inl err"
proof -
  from js_get_others[OF assms(1)] obtain email results where
    g: "js_get body ''email'' = Inr email" "js_get body ''results'' = Inr results"
    by blast
  have "call_toFixed env v 1 = Inl TypeError"
    using assms(3) by (cases v) simp_all
  then have "line ''Per squad/month: '' (show_fixed env mv ''perSquad'' 1) [] = Inl TypeError"
    using assms(2) by (simp add: line_def show_fixed_def)
  then have "\<exists>err. resultsText env email results mv = Inl err"
    unfolding resultsText_def by (intro collect_Inl[of TypeError]) simp
  then show ?thesis
    using try_block_text_fails[OF g assms(1)] by blast
qed

lemma show_cfr_falsy:
  "js_get m ''cfr'' = Inr v \<Longrightarrow> \<not> js_truthy v \<Longrightarrow> show_cfr env m = Inr ''N/A''"
  by (simp add: show_cfr_def)

lemma show_or_na_falsy:
  "js_get r k = Inr v \<Longrightarrow> \<not> js_truthy v \<Longrightarrow> show_or_na env r k = Inr ''N/A''"
  by (simp add: show_or_na_def)

lemma text_lines:
  assumes "resultsText env email r m = Inr ls"
  shows "show_cfr env m = Inr s \<Longrightarrow> ''CFR: '' @ s \<in> set ls"
    and "show_or_na env r ''leadDays'' = Inr s \<Longrightarrow> ''Lead time (days): '' @ s \<in> set ls"
    and "show_or_na env r ''mttrHours'' = Inr s \<Longrightarrow> ''MTTR (hours): '' @ s \<in> set ls"
proof -
  note c = collect_member[OF assms[unfolded resultsText_def]]
  show "show_cfr env m = Inr s \<Longrightarrow> ''CFR: '' @ s \<in> set ls"
    by (rule c) (simp add: line_def)
  show "show_or_na env r ''leadDays'' = Inr s \<Longrightarrow> ''Lead time (days): '' @ s \<in> set ls"
    by (rule c) (simp add: line_def)
  show "show_or_na env r ''mttrHours'' = Inr s \<Longrightarrow> ''MTTR (hours): '' @ s \<in> set ls"
    by (rule c) (simp add: line_def)
qed

lemma html_lines:
  assumes "resultsHtml env email r m = Inr ls"
  shows "show_cfr env m = Inr s \<Longrightarrow>
           ''        <p>CFR: <strong>'' @ s @ ''</strong></p>'' \<in> set ls"
    and "show_or_na env r ''leadDays'' = Inr s \<Longrightarrow>
           ''        <p>Lead time (days): <strong>'' @ s @ ''</strong></p>'' \<in> set ls"
    and "show_or_na env r ''mttrHours'' = Inr s \<Longrightarrow>
           ''        <p>MTTR (hours): <strong>'' @ s @ ''</strong></p>'' \<in> set ls"
proof -
  note c = collect_member[OF assms[unfolded resultsHtml_def]]
  show "show_cfr env m = Inr s \<Longrightarrow>
           ''        <p>CFR: <strong>'' @ s @ ''</strong></p>'' \<in> set ls"
    by (rule c) (simp add: line_def)
  show "show_or_na env r ''leadDays'' = Inr s \<Longrightarrow>
           ''        <p>Lead time (days): <strong>'' @ s @ ''</strong></p>'' \<in> set ls"
    by (rule c) (simp add: line_def)
  show "show_or_na env r ''mttrHours'' = Inr s \<Longrightarrow>
           ''        <p>MTTR (hours): <strong>'' @ s @ ''</strong></p>'' \<in> set ls"
    by (rule c) (simp add: line_def)
qed

lemma example_request_formats:
  "\<exists>data. try_block example_env example_request = Inr data"
  by (simp add: try_block_def example_request_def resultsText_def resultsHtml_def line_def
      line2_def tier_badge_def show_prop_def show_fixed_def show_upper_def show_cfr_def
      show_or_na_def example_env_def)

lemma request_without_metrics_throws:
  "try_block example_env request_without_metrics = Inl TypeError"
  by (simp add: try_block_def request_without_metrics_def resultsText_def line_def
      show_prop_def example_env_def)

section \<open>The claims\<close>

text \<open>
  Claim C1. For the answers deploys = 12, team = 20, squads = 4, errors = 2, leadDays = 3
  and mttrHours = 8 the derived metrics are perSquad = 3.0 and perEngineer = 0.6 (the
  Number that the literal \<open>0.6\<close> denotes), the change failure rate is the Number 2/12
  (between 16.65% and 16.75%, so about 16.7%) and is classified medium, and the
  frequency, the lead time and the time to restore are each classified high.
\<close>

theorem end_to_end_example:
  "perSquad (metrics (validNumbers
      \<lparr>deploys = Some (Fin 12), team = Some (Fin 20), squads = Some (Fin 4),
       errors = Some (Fin 2), leadDays = Some (Fin 3), mttrHours = Some (Fin 8)\<rparr>)) = Fin 3.0 \<and>
   perEng (metrics (validNumbers
      \<lparr>deploys = Some (Fin 12), team = Some (Fin 20), squads = Some (Fin 4),
       errors = Some (Fin 2), leadDays = Some (Fin 3), mttrHours = Some (Fin 8)\<rparr>)) =
     binary64 0.6 \<and>
   metrics (validNumbers
      \<lparr>deploys = Some (Fin 12), team = Some (Fin 20), squads = Some (Fin 4),
       errors = Some (Fin 2), leadDays = Some (Fin 3), mttrHours = Some (Fin 8)\<rparr>) =
     \<lparr>perSquad = Fin 3, perEng = binary64 (6 / 10), cfr = Some (binary64 (2 / 12)),
      freq = High, cfrT = Medium, freqPct = Fin 40, cfrPct = Fin 44,
      ltT = High, mttrT = High, ltPct = Fin 93, mttrPct = Fin 96\<rparr> \<and>
   binary64 0.6 = Fin (5404319552844595 / 9007199254740992) \<and>
   binary64 (2 / 12) = Fin (6004799503160661 / 36028797018963968) \<and>
   js_le (Fin 0.1665) (binary64 (2 / 12)) \<and> js_lt (binary64 (2 / 12)) (Fin 0.1675)"
  proof -
  have i: "\<lparr>deploys = Some (Fin 12), team = Some (Fin 20), squads = Some (Fin 4),
       errors = Some (Fin 2), leadDays = Some (Fin 3), mttrHours = Some (Fin 8)\<rparr> =
     initial_answers"
    by (simp add: initial_answers_def)
  show ?thesis
    unfolding i metrics_initial_answers binary64_consts by (simp add: js_lt.simps)
qed

text \<open>
  Claim C2. \<open>cfrTier\<close> maps null to n/a, every rate of at most 0.15 to elite, every rate
  above 0.15 and at most 0.30 to medium, and every rate above 0.30 to low; it never
  returns high. At the boundaries: 0.15 is elite, 0.151 is medium, 0.31 is low.
\<close>

theorem cfrTier_bands:
  "cfrTier None = Na \<and>
   (\<forall>c. js_le c (Fin 0.15) \<longrightarrow> cfrTier (Some c) = Elite) \<and>
   (\<forall>c. js_gt c (Fin 0.15) \<and> js_le c (Fin 0.30) \<longrightarrow> cfrTier (Some c) = Medium) \<and>
   (\<forall>c. js_gt c (Fin 0.30) \<longrightarrow> cfrTier (Some c) = Low) \<and>
   (\<forall>x. cfrTier x \<noteq> High) \<and>
   cfrTier (Some (Fin 0.15)) = Elite \<and> cfrTier (Some (Fin 0.151)) = Medium \<and>
   cfrTier (Some (Fin 0.31)) = Low"
  using cfrTier_not_High
  by (auto simp: cfrTier_cases js_gt_Fin_iff js_le_Fin_iff simp del: cfrTier.simps(2)
      split: jsnum.splits)

theorem cfrTier_bands_witness:
  "js_le (Fin 0.1) (Fin 0.15) \<and> cfrTier (Some (Fin 0.1)) = Elite \<and>
   js_gt (Fin 0.2) (Fin 0.15) \<and> js_le (Fin 0.2) (Fin 0.30) \<and>
   cfrTier (Some (Fin 0.2)) = Medium \<and>
   js_gt (Fin 0.5) (Fin 0.30) \<and> cfrTier (Some (Fin 0.5)) = Low"
proof -
  have h1: "js_le (Fin 0.1) (Fin 0.15)" by simp
  have h2: "js_gt (Fin 0.2) (Fin 0.15) \<and> js_le (Fin 0.2) (Fin 0.30)" by (simp add: js_gt_def)
  have h3: "js_gt (Fin 0.5) (Fin 0.30)" by (simp add: js_gt_def)
  from cfrTier_bands h1 have "cfrTier (Some (Fin 0.1)) = Elite" by blast
  moreover from cfrTier_bands h2 have "cfrTier (Some (Fin 0.2)) = Medium" by blast
  moreover from cfrTier_bands h3 have "cfrTier (Some (Fin 0.5)) = Low" by blast
  ultimately show ?thesis using h1 h2 h3 by blast
qed

text \<open>
  Claim C3. \<open>freqTier\<close> maps every number of at least 30 to elite, every number from 4 up
  to but not including 30 to high, every number from 1 up to but not including 4 to
  medium, every number strictly between 0 and 1 to low, and everything else (every number
  that is not above 0) to n/a. In particular 0 is n/a, 29.9 is high and 30 is elite.
\<close>

theorem freqTier_bands:
  "(\<forall>p. js_ge p (Fin 30) \<longrightarrow> freqTier p = Elite) \<and>
   (\<forall>p. js_ge p (Fin 4) \<and> js_lt p (Fin 30) \<longrightarrow> freqTier p = High) \<and>
   (\<forall>p. js_ge p (Fin 1) \<and> js_lt p (Fin 4) \<longrightarrow> freqTier p = Medium) \<and>
   (\<forall>p. js_gt p (Fin 0) \<and> js_lt p (Fin 1) \<longrightarrow> freqTier p = Low) \<and>
   (\<forall>p. \<not> js_gt p (Fin 0) \<longrightarrow> freqTier p = Na) \<and>
   (\<forall>p. js_le p (Fin 0) \<longrightarrow> freqTier p = Na) \<and>
   freqTier (Fin 0) = Na \<and> freqTier (Fin 29.9) = High \<and> freqTier (Fin 30) = Elite"
  by (auto simp: freqTier_cases js_gt_Fin_iff js_ge_Fin_iff js_le_Fin_iff js_lt_Fin_iff
      split: jsnum.splits)

theorem freqTier_bands_witness:
  "js_ge (Fin 45) (Fin 30) \<and> freqTier (Fin 45) = Elite \<and>
   js_ge (Fin 12) (Fin 4) \<and> js_lt (Fin 12) (Fin 30) \<and> freqTier (Fin 12) = High \<and>
   js_ge (Fin 2) (Fin 1) \<and> js_lt (Fin 2) (Fin 4) \<and> freqTier (Fin 2) = Medium \<and>
   js_gt (Fin 0.5) (Fin 0) \<and> js_lt (Fin 0.5) (Fin 1) \<and> freqTier (Fin 0.5) = Low \<and>
   \<not> js_gt NaN (Fin 0) \<and> freqTier NaN = Na \<and>
   js_le (Fin (- 3)) (Fin 0) \<and> freqTier (Fin (- 3)) = Na"
proof -
  have h1: "js_ge (Fin 45) (Fin 30)" by (simp add: js_ge_def)
  have h2: "js_ge (Fin 12) (Fin 4) \<and> js_lt (Fin 12) (Fin 30)" by (simp add: js_ge_def)
  have h3: "js_ge (Fin 2) (Fin 1) \<and> js_lt (Fin 2) (Fin 4)" by (simp add: js_ge_def)
  have h4: "js_gt (Fin 0.5) (Fin 0) \<and> js_lt (Fin 0.5) (Fin 1)" by (simp add: js_gt_def)
  have h5: "\<not> js_gt NaN (Fin 0)" by (simp add: js_gt_def)
  have h6: "js_le (Fin (- 3)) (Fin 0)" by simp
  from freqTier_bands h1 have "freqTier (Fin 45) = Elite" by blast
  moreover from freqTier_bands h2 have "freqTier (Fin 12) = High" by blast
  moreover from freqTier_bands h3 have "freqTier (Fin 2) = Medium" by blast
  moreover from freqTier_bands h4 have "freqTier (Fin 0.5) = Low" by blast
  moreover from freqTier_bands h5 have "freqTier NaN = Na" by blast
  moreover from freqTier_bands h6 have "freqTier (Fin (- 3)) = Na" by blast
  ultimately show ?thesis using h1 h2 h3 h4 h5 h6 by blast
qed

text \<open>
  Claim C4. For every set of coerced answers (each blank or a finite number that is not
  negative) the change failure rate is null or lies in \<open>[0, 1]\<close>, and each of the four bar
  values is an integer from 0 to 100, namely the value of the specification's formula
  in the arithmetic of Numbers: for the frequency \<open>value/30*100\<close> capped at 100; for the
  change failure rate \<open>(1 - cfr/0.30)*100\<close> floored at 0, and 0 when null; for the lead
  time \<open>(1 - (days-1)/29)*100\<close> clamped to \<open>[0,100]\<close>, and 0 when null; for the time to
  restore \<open>(1 - (hours-1)/167)*100\<close> clamped to \<open>[0,100]\<close>, and 0 when null.
\<close>

theorem progress_percentages:
  assumes "coerced a"
  shows
    "(cfr (metrics (validNumbers a)) = None \<or>
      (\<exists>c. cfr (metrics (validNumbers a)) = Some (Fin c) \<and> 0 \<le> c \<and> c \<le> 1)) \<and>
     is_percentage (freqPct (metrics (validNumbers a))) \<and>
     is_percentage (cfrPct (metrics (validNumbers a))) \<and>
     is_percentage (ltPct (metrics (validNumbers a))) \<and>
     is_percentage (mttrPct (metrics (validNumbers a))) \<and>
     freqPct (metrics (validNumbers a)) = progressPercent_frequency (num_d (validNumbers a)) \<and>
     cfrPct (metrics (validNumbers a)) = progressPercent_cfr (cfr (metrics (validNumbers a))) \<and>
     ltPct (metrics (validNumbers a)) = progressPercent_leadTime (num_ld (validNumbers a)) \<and>
     mttrPct (metrics (validNumbers a)) = progressPercent_mttr (num_mh (validNumbers a))"
proof -
  from assms obtain d where d: "number_or (deploys a) (Fin 0) = Fin d" "0 \<le> d"
    using number_or_coerced[of "deploys a" 0] by (auto simp: coerced_def)
  from assms obtain e where e: "number_or (errors a) (Fin 0) = Fin e" "0 \<le> e"
    using number_or_coerced[of "errors a" 0] by (auto simp: coerced_def)
  have vd: "num_d (validNumbers a) = Fin d" and ve: "num_e (validNumbers a) = Fin e"
    using d e by (simp_all add: validNumbers_sel)
  have c: "cfr (metrics (validNumbers a)) = None \<or>
      (\<exists>c. cfr (metrics (validNumbers a)) = Some (Fin c) \<and> 0 \<le> c \<and> c \<le> 1)"
    unfolding metrics_sel(3) vd ve by (rule cfr_value[OF d(2) e(2)])
  have p1: "is_percentage (freqPct (metrics (validNumbers a)))"
    unfolding metrics_sel(8) vd by (rule freqPctOf_percentage[OF d(2)])
  have p2: "is_percentage (cfrPct (metrics (validNumbers a)))"
    using c cfrPctOf_percentage by (auto simp: metrics_sel(9))
  have p3: "is_percentage (ltPct (metrics (validNumbers a)))"
  proof -
    from assms have "coerced_field (leadDays a)" by (simp add: coerced_def)
    then show ?thesis
      by (cases rule: coerced_field_cases)
        (simp_all only: metrics_sel(10) validNumbers_sel(5) ltPctOf_percentage, simp)
  qed
  have p4: "is_percentage (mttrPct (metrics (validNumbers a)))"
  proof -
    from assms have "coerced_field (mttrHours a)" by (simp add: coerced_def)
    then show ?thesis
      by (cases rule: coerced_field_cases)
        (simp_all only: metrics_sel(11) validNumbers_sel(6) mttrPctOf_percentage, simp)
  qed
  have r: "freqPct (metrics (validNumbers a)) = progressPercent_frequency (num_d (validNumbers a))"
    "cfrPct (metrics (validNumbers a)) = progressPercent_cfr (cfr (metrics (validNumbers a)))"
    "ltPct (metrics (validNumbers a)) = progressPercent_leadTime (num_ld (validNumbers a))"
    "mttrPct (metrics (validNumbers a)) = progressPercent_mttr (num_mh (validNumbers a))"
    by (simp_all only: metrics_sel freq_refines cfr_refines lt_refines mttr_refines)
  from c p1 p2 p3 p4 r show ?thesis by blast
qed

theorem progress_percentages_witness:
  "coerced initial_answers \<and>
   is_percentage (freqPct (metrics (validNumbers initial_answers))) \<and>
   is_percentage (cfrPct (metrics (validNumbers initial_answers))) \<and>
   is_percentage (ltPct (metrics (validNumbers initial_answers))) \<and>
   is_percentage (mttrPct (metrics (validNumbers initial_answers))) \<and>
   progressPercent_frequency (num_d (validNumbers initial_answers)) = Fin 40 \<and>
   progressPercent_cfr (cfr (metrics (validNumbers initial_answers))) = Fin 44 \<and>
   progressPercent_leadTime (num_ld (validNumbers initial_answers)) = Fin 93 \<and>
   progressPercent_mttr (num_mh (validNumbers initial_answers)) = Fin 96"
proof -
  have co: "coerced initial_answers"
    by (simp add: coerced_def initial_answers_def)
  have v: "freqPct (metrics (validNumbers initial_answers)) = Fin 40"
    "cfrPct (metrics (validNumbers initial_answers)) = Fin 44"
    "ltPct (metrics (validNumbers initial_answers)) = Fin 93"
    "mttrPct (metrics (validNumbers initial_answers)) = Fin 96"
    by (simp_all add: metrics_initial_answers)
  from progress_percentages[OF co] have p:
    "is_percentage (freqPct (metrics (validNumbers initial_answers)))"
    "is_percentage (cfrPct (metrics (validNumbers initial_answers)))"
    "is_percentage (ltPct (metrics (validNumbers initial_answers)))"
    "is_percentage (mttrPct (metrics (validNumbers initial_answers)))"
    and r: "freqPct (metrics (validNumbers initial_answers)) =
       progressPercent_frequency (num_d (validNumbers initial_answers))"
    "cfrPct (metrics (validNumbers initial_answers)) =
       progressPercent_cfr (cfr (metrics (validNumbers initial_answers)))"
    "ltPct (metrics (validNumbers initial_answers)) =
       progressPercent_leadTime (num_ld (validNumbers initial_answers))"
    "mttrPct (metrics (validNumbers initial_answers)) =
       progressPercent_mttr (num_mh (validNumbers initial_answers))"
    by blast+
  from r v have
    "progressPercent_frequency (num_d (validNumbers initial_answers)) = Fin 40"
    "progressPercent_cfr (cfr (metrics (validNumbers initial_answers))) = Fin 44"
    "progressPercent_leadTime (num_ld (validNumbers initial_answers)) = Fin 93"
    "progressPercent_mttr (num_mh (validNumbers initial_answers)) = Fin 96"
    by simp_all
  with co p show ?thesis by blast
qed

text \<open>
  Claim C5. The bar values are monotone in their numeric argument: for all \<open>x \<le> y\<close> the
  frequency value at \<open>x\<close> is at most the one at \<open>y\<close>, and the change-failure-rate, lead-time
  and time-to-restore values at \<open>x\<close> are each at least the one at \<open>y\<close>.
\<close>

theorem progress_monotone:
  assumes "js_le x y"
  shows "js_le (freqPctOf x) (freqPctOf y) \<and>
         js_le (cfrPctOf (Some y)) (cfrPctOf (Some x)) \<and>
         js_le (ltPctOf (Some y)) (ltPctOf (Some x)) \<and>
         js_le (mttrPctOf (Some y)) (mttrPctOf (Some x))"
  using assms freq_mono cfr_mono lt_mono mttr_mono by blast

theorem progress_monotone_witness:
  "js_le (Fin 3) (Fin 12) \<and>
   js_le (freqPctOf (Fin 3)) (freqPctOf (Fin 12)) \<and>
   js_le (cfrPctOf (Some (Fin 12))) (cfrPctOf (Some (Fin 3))) \<and>
   js_le (ltPctOf (Some (Fin 12))) (ltPctOf (Some (Fin 3))) \<and>
   js_le (mttrPctOf (Some (Fin 12))) (mttrPctOf (Some (Fin 3)))"
proof -
  have h: "js_le (Fin 3) (Fin 12)" by simp
  from progress_monotone[OF h] h show ?thesis by blast
qed

text \<open>
  Claim C6, as amended. For every set of answers, perSquad is the number of deployments
  divided by the number of squads, where a number of squads that is missing, zero or
  \<open>NaN\<close> is replaced by 1, so the divisor is never zero. This is the division by
  \<open>max(squadCount, 1)\<close> whenever the number of squads is 0 or at least 1 (a number of
  squads strictly between 0 and 1 is used as it is), and for every number of squads
  \<open>\<le> 0\<close>, as the form holds it or as it is typed, the divisor is 1.
\<close>

theorem perSquad_divisor:
  "perSquad (metrics (validNumbers a)) =
     js_div (num_d (validNumbers a)) (num_s (validNumbers a)) \<and>
   num_d (validNumbers a) = (case deploys a of None \<Rightarrow> Fin 0 | Some n \<Rightarrow> n) \<and>
   num_s (validNumbers a) =
     (case squads a of None \<Rightarrow> Fin 1
      | Some n \<Rightarrow> if n = Fin 0 \<or> n = NaN then Fin 1 else n) \<and>
   num_s (validNumbers a) \<noteq> Fin 0 \<and>
   (\<forall>q. squads a = Some (Fin q) \<and> (q = 0 \<or> 1 \<le> q) \<longrightarrow>
        num_s (validNumbers a) = Math_max (Fin q) (Fin 1)) \<and>
   (\<forall>n. squads a = Some n \<and> coerced_field (squads a) \<and> js_le n (Fin 0) \<longrightarrow>
        num_s (validNumbers a) = Fin 1) \<and>
   (\<forall>n. js_le n (Fin 0) \<longrightarrow>
        num_s (validNumbers (a\<lparr>squads := onChange (Text n)\<rparr>)) = Fin 1)"
proof -
  have ty: "js_le n (Fin 0) \<Longrightarrow>
        num_s (validNumbers (a\<lparr>squads := onChange (Text n)\<rparr>)) = Fin 1" for n
    by (cases n)
      (simp_all add: validNumbers_sel or_else_def clampNum_def MAX_SAFE_INTEGER_def max_def)
  have s: "num_s (validNumbers a) =
     (case squads a of None \<Rightarrow> Fin 1
      | Some n \<Rightarrow> if n = Fin 0 \<or> n = NaN then Fin 1 else n)"
    by (cases "squads a") (simp_all add: validNumbers_sel or_else_def truthy_iff)
  have d: "num_d (validNumbers a) = (case deploys a of None \<Rightarrow> Fin 0 | Some n \<Rightarrow> n)"
    by (cases "deploys a") (simp_all add: validNumbers_sel)
  have nz: "num_s (validNumbers a) \<noteq> Fin 0"
    unfolding s by (simp split: option.splits)
  have m: "squads a = Some (Fin q) \<Longrightarrow> q = 0 \<or> 1 \<le> q \<Longrightarrow>
        num_s (validNumbers a) = Math_max (Fin q) (Fin 1)" for q
    unfolding s by auto
  have z: "squads a = Some n \<Longrightarrow> coerced_field (squads a) \<Longrightarrow> js_le n (Fin 0) \<Longrightarrow>
        num_s (validNumbers a) = Fin 1" for n
    unfolding s by (cases n) auto
  show ?thesis
    using metrics_sel(1)[of "validNumbers a"] s d nz m z ty by blast
qed

theorem perSquad_divisor_witness:
  "squads (initial_answers\<lparr>squads := onChange (Text (Fin 0))\<rparr>) = Some (Fin 0) \<and>
   coerced_field (squads (initial_answers\<lparr>squads := onChange (Text (Fin 0))\<rparr>)) \<and>
   js_le (Fin 0) (Fin 0) \<and>
   num_s (validNumbers (initial_answers\<lparr>squads := onChange (Text (Fin 0))\<rparr>)) = Fin 1 \<and>
   num_s (validNumbers (initial_answers\<lparr>squads := onChange (Text (Fin 0))\<rparr>)) =
     Math_max (Fin 0) (Fin 1) \<and>
   perSquad (metrics (validNumbers (initial_answers\<lparr>squads := onChange (Text (Fin 0))\<rparr>))) =
     Fin 12"
proof -
  let ?a = "initial_answers\<lparr>squads := onChange (Text (Fin 0))\<rparr>"
  have h1: "squads ?a = Some (Fin 0)"
    by (simp add: clampNum_def MAX_SAFE_INTEGER_def)
  have h2: "coerced_field (squads ?a)"
    by (simp add: clampNum_def MAX_SAFE_INTEGER_def)
  have h3: "js_le (Fin 0) (Fin 0)" by simp
  from perSquad_divisor[of ?a] h1 h2 h3 have s1: "num_s (validNumbers ?a) = Fin 1"
    by blast
  from perSquad_divisor[of ?a] h1 have s2: "num_s (validNumbers ?a) = Math_max (Fin 0) (Fin 1)"
    by blast
  have dd: "(case deploys ?a of None \<Rightarrow> Fin 0 | Some n \<Rightarrow> n) = Fin 12"
    by (simp add: initial_answers_def)
  from perSquad_divisor[of ?a]
  have "perSquad (metrics (validNumbers ?a)) =
          js_div (case deploys ?a of None \<Rightarrow> Fin 0 | Some n \<Rightarrow> n) (num_s (validNumbers ?a))"
    by simp
  then have "perSquad (metrics (validNumbers ?a)) = Fin 12"
    by (simp only: dd s1) (simp add: binary64_consts)
  with h1 h2 h3 s1 s2 show ?thesis by blast
qed

text \<open>
  The claim as stated fails for a number of squads strictly between 0 and 1: with 12
  deployments and the text \<open>0.5\<close> typed for the squads, perSquad is 24, and
  \<open>12 / max(0.5, 1)\<close> is 12.
\<close>

theorem perSquad_max_counterexample:
  "squads (initial_answers\<lparr>squads := onChange (Text (Fin 0.5))\<rparr>) = Some (Fin 0.5) \<and>
   num_d (validNumbers (initial_answers\<lparr>squads := onChange (Text (Fin 0.5))\<rparr>)) = Fin 12 \<and>
   perSquad (metrics (validNumbers (initial_answers\<lparr>squads := onChange (Text (Fin 0.5))\<rparr>))) =
     Fin 24 \<and>
   js_div (Fin 12) (Math_max (Fin 0.5) (Fin 1)) = Fin 12 \<and>
   perSquad (metrics (validNumbers (initial_answers\<lparr>squads := onChange (Text (Fin 0.5))\<rparr>))) \<noteq>
     js_div (num_d (validNumbers (initial_answers\<lparr>squads := onChange (Text (Fin 0.5))\<rparr>)))
       (Math_max (Fin 0.5) (Fin 1))"
  by (simp add: metrics_sel validNumbers_sel or_else_def clampNum_def MAX_SAFE_INTEGER_def
      initial_answers_def binary64_consts)

text \<open>
  Claim C7, as amended. No input is rejected: whatever is typed, the answer stored is
  blank or a finite number that is not negative. A blank or non-numeric entry (one whose
  numeric conversion is not finite) makes deploys, team and errors count as 0 and squads
  count as 1. A blank lead time or time to restore is null; a non-numeric one is stored
  as 0 and so counts as 0, not as null.
\<close>

theorem coercion_policy:
  "coerced_field (onChange v) \<and>
   num_d (validNumbers (a\<lparr>deploys := onChange EmptyText\<rparr>)) = Fin 0 \<and>
   num_t (validNumbers (a\<lparr>team := onChange EmptyText\<rparr>)) = Fin 0 \<and>
   num_e (validNumbers (a\<lparr>errors := onChange EmptyText\<rparr>)) = Fin 0 \<and>
   num_s (validNumbers (a\<lparr>squads := onChange EmptyText\<rparr>)) = Fin 1 \<and>
   num_ld (validNumbers (a\<lparr>leadDays := onChange EmptyText\<rparr>)) = None \<and>
   num_mh (validNumbers (a\<lparr>mttrHours := onChange EmptyText\<rparr>)) = None \<and>
   (\<not> isFinite n \<longrightarrow>
      num_d (validNumbers (a\<lparr>deploys := onChange (Text n)\<rparr>)) = Fin 0 \<and>
      num_t (validNumbers (a\<lparr>team := onChange (Text n)\<rparr>)) = Fin 0 \<and>
      num_e (validNumbers (a\<lparr>errors := onChange (Text n)\<rparr>)) = Fin 0 \<and>
      num_s (validNumbers (a\<lparr>squads := onChange (Text n)\<rparr>)) = Fin 1 \<and>
      num_ld (validNumbers (a\<lparr>leadDays := onChange (Text n)\<rparr>)) = Some (Fin 0) \<and>
      num_mh (validNumbers (a\<lparr>mttrHours := onChange (Text n)\<rparr>)) = Some (Fin 0))"
  using onChange_coerced[of v] onChange_not_finite[of n]
  by (simp add: validNumbers_sel or_else_def)

theorem coercion_policy_witness:
  "\<not> isFinite NaN \<and>
   num_d (validNumbers (initial_answers\<lparr>deploys := onChange (Text NaN)\<rparr>)) = Fin 0 \<and>
   num_t (validNumbers (initial_answers\<lparr>team := onChange (Text NaN)\<rparr>)) = Fin 0 \<and>
   num_e (validNumbers (initial_answers\<lparr>errors := onChange (Text NaN)\<rparr>)) = Fin 0 \<and>
   num_s (validNumbers (initial_answers\<lparr>squads := onChange (Text NaN)\<rparr>)) = Fin 1 \<and>
   num_ld (validNumbers (initial_answers\<lparr>leadDays := onChange (Text NaN)\<rparr>)) = Some (Fin 0) \<and>
   num_mh (validNumbers (initial_answers\<lparr>mttrHours := onChange (Text NaN)\<rparr>)) = Some (Fin 0)"
proof -
  have h: "\<not> isFinite NaN" by simp
  from coercion_policy[of EmptyText initial_answers NaN] h show ?thesis by blast
qed

text \<open>
  The claim as stated fails twice: a blank number of squads counts as 1, not as 0, and a
  non-numeric lead time counts as 0, not as null.
\<close>

theorem coercion_counterexample:
  "num_s (validNumbers (initial_answers\<lparr>squads := onChange EmptyText\<rparr>)) = Fin 1 \<and>
   num_s (validNumbers (initial_answers\<lparr>squads := onChange EmptyText\<rparr>)) \<noteq> Fin 0 \<and>
   num_ld (validNumbers (initial_answers\<lparr>leadDays := onChange (Text NaN)\<rparr>)) = Some (Fin 0) \<and>
   num_ld (validNumbers (initial_answers\<lparr>leadDays := onChange (Text NaN)\<rparr>)) \<noteq> None"
  by (simp add: validNumbers_sel or_else_def clampNum_def)

text \<open>
  Claim C8. \<open>leadTier\<close> maps null to n/a, every lead time of at most 1 day to elite, every
  lead time above 1 and at most 7 days to high, every lead time above 7 and at most 30
  days to medium, and every lead time above 30 days to low. In particular 1 is elite, 7
  is high, 30 is medium and 31 is low.
\<close>

theorem leadTier_bands:
  "leadTier None = Na \<and>
   (\<forall>days. js_le days (Fin 1) \<longrightarrow> leadTier (Some days) = Elite) \<and>
   (\<forall>days. js_gt days (Fin 1) \<and> js_le days (Fin 7) \<longrightarrow> leadTier (Some days) = High) \<and>
   (\<forall>days. js_gt days (Fin 7) \<and> js_le days (Fin 30) \<longrightarrow> leadTier (Some days) = Medium) \<and>
   (\<forall>days. js_gt days (Fin 30) \<longrightarrow> leadTier (Some days) = Low) \<and>
   leadTier (Some (Fin 1)) = Elite \<and> leadTier (Some (Fin 7)) = High \<and>
   leadTier (Some (Fin 30)) = Medium \<and> leadTier (Some (Fin 31)) = Low"
  by (auto simp: leadTier_cases js_gt_Fin_iff js_le_Fin_iff simp del: leadTier.simps(2)
      split: jsnum.splits)

theorem leadTier_bands_witness:
  "js_le (Fin 0.5) (Fin 1) \<and> leadTier (Some (Fin 0.5)) = Elite \<and>
   js_gt (Fin 3) (Fin 1) \<and> js_le (Fin 3) (Fin 7) \<and> leadTier (Some (Fin 3)) = High \<and>
   js_gt (Fin 14) (Fin 7) \<and> js_le (Fin 14) (Fin 30) \<and> leadTier (Some (Fin 14)) = Medium \<and>
   js_gt (Fin 45) (Fin 30) \<and> leadTier (Some (Fin 45)) = Low"
proof -
  have h1: "js_le (Fin 0.5) (Fin 1)" by simp
  have h2: "js_gt (Fin 3) (Fin 1) \<and> js_le (Fin 3) (Fin 7)" by (simp add: js_gt_def)
  have h3: "js_gt (Fin 14) (Fin 7) \<and> js_le (Fin 14) (Fin 30)" by (simp add: js_gt_def)
  have h4: "js_gt (Fin 45) (Fin 30)" by (simp add: js_gt_def)
  from leadTier_bands h1 have "leadTier (Some (Fin 0.5)) = Elite" by blast
  moreover from leadTier_bands h2 have "leadTier (Some (Fin 3)) = High" by blast
  moreover from leadTier_bands h3 have "leadTier (Some (Fin 14)) = Medium" by blast
  moreover from leadTier_bands h4 have "leadTier (Some (Fin 45)) = Low" by blast
  ultimately show ?thesis using h1 h2 h3 h4 by blast
qed

text \<open>
  Claim C9. For every request, \<open>POST\<close> returns a response and no exception leaves it:
  whenever an exception is raised while the body is read or the report is formatted, the
  caller receives the error response (status 500, \<open>{ error: 'Failed to send email' }\<close>) and
  the exception is written to the console. In particular a body whose \<open>metrics\<close> is absent
  or null, or whose \<open>metrics.perSquad\<close> is not a number, is answered with status 500.
\<close>

theorem POST_fails_closed:
  "\<exists>resp out. POST env request = Inr (resp, out) \<and>
     (\<forall>err. try_block env request = Inl err \<longrightarrow>
        resp = \<lparr>status = 500, json = JObj [(''error'', JStr ''Failed to send email'')]\<rparr> \<and>
        out = Error err) \<and>
     (\<forall>body mv. request = Inr body \<and> js_get body ''metrics'' = Inr mv \<and>
        (mv = Undefined \<or> mv = Null) \<longrightarrow> status resp = 500) \<and>
     (\<forall>body mv v. request = Inr body \<and> js_get body ''metrics'' = Inr mv \<and>
        js_get mv ''perSquad'' = Inr v \<and> (\<forall>n. v \<noteq> JNum n) \<longrightarrow> status resp = 500)"
proof (cases "try_block env request")
  case (Inl err)
  then show ?thesis by (simp add: POST_def)
next
  case (Inr data)
  have no1: "\<not> (request = Inr body \<and> js_get body ''metrics'' = Inr mv \<and>
        (mv = Undefined \<or> mv = Null))" for body mv
    using metrics_missing[of body mv env] Inr by auto
  have no2: "\<not> (request = Inr body \<and> js_get body ''metrics'' = Inr mv \<and>
        js_get mv ''perSquad'' = Inr v \<and> (\<forall>n. v \<noteq> JNum n))" for body mv v
  proof
    assume a: "request = Inr body \<and> js_get body ''metrics'' = Inr mv \<and>
        js_get mv ''perSquad'' = Inr v \<and> (\<forall>n. v \<noteq> JNum n)"
    then have "\<exists>err. try_block env (Inr body) = Inl err"
      using perSquad_not_number[of body mv v env] by blast
    with a Inr show False by simp
  qed
  have "POST env request =
      Inr (\<lparr>status = 200,
             json = JObj [(''success'', JBool True),
                          (''message'', JStr ''Results captured and email queued'')]\<rparr>,
           Log data)"
    using Inr by (simp add: POST_def)
  with Inr no1 no2 show ?thesis by simp
qed

theorem POST_fails_closed_witness:
  "try_block example_env request_without_metrics = Inl TypeError \<and>
   POST example_env request_without_metrics =
     Inr (\<lparr>status = 500, json = JObj [(''error'', JStr ''Failed to send email'')]\<rparr>,
          Error TypeError)"
proof -
  have h: "try_block example_env request_without_metrics = Inl TypeError"
    by (rule request_without_metrics_throws)
  from POST_fails_closed[of example_env request_without_metrics] obtain resp out where
    p: "POST example_env request_without_metrics = Inr (resp, out)"
    and e: "\<forall>err. try_block example_env request_without_metrics = Inl err \<longrightarrow>
        resp = \<lparr>status = 500, json = JObj [(''error'', JStr ''Failed to send email'')]\<rparr> \<and>
        out = Error err"
    by blast
  from e h have
    "resp = \<lparr>status = 500, json = JObj [(''error'', JStr ''Failed to send email'')]\<rparr>"
    "out = Error TypeError"
    by blast+
  with p h show ?thesis by simp
qed

text \<open>
  Claim C10. Whenever the handler produces the two reports, a \<open>metrics.cfr\<close>, a
  \<open>results.leadDays\<close> or a \<open>results.mttrHours\<close> equal to 0 is shown as \<open>N/A\<close> in the
  plain-text report and in the HTML report, exactly as a value that is null or absent
  is, while the classifier takes 0 for a defined value (the tier of a change failure
  rate, a lead time or a time to restore of 0 is elite, and that of null is n/a).
\<close>

theorem zero_rendered_as_NA:
  assumes "try_block env (Inr body) = Inr data"
    and "js_get body ''metrics'' = Inr m"
    and "js_get body ''results'' = Inr r"
  shows
    "(\<forall>v. js_get m ''cfr'' = Inr v \<and> (v = JNum (Fin 0) \<or> v = Null \<or> v = Undefined) \<longrightarrow>
        ''CFR: N/A'' \<in> set (mail_text data) \<and>
        ''        <p>CFR: <strong>N/A</strong></p>'' \<in> set (mail_html data)) \<and>
     (\<forall>v. js_get r ''leadDays'' = Inr v \<and> (v = JNum (Fin 0) \<or> v = Null \<or> v = Undefined) \<longrightarrow>
        ''Lead time (days): N/A'' \<in> set (mail_text data) \<and>
        ''        <p>Lead time (days): <strong>N/A</strong></p>'' \<in> set (mail_html data)) \<and>
     (\<forall>v. js_get r ''mttrHours'' = Inr v \<and> (v = JNum (Fin 0) \<or> v = Null \<or> v = Undefined) \<longrightarrow>
        ''MTTR (hours): N/A'' \<in> set (mail_text data) \<and>
        ''        <p>MTTR (hours): <strong>N/A</strong></p>'' \<in> set (mail_html data)) \<and>
     cfrTier (Some (Fin 0)) = Elite \<and> leadTier (Some (Fin 0)) = Elite \<and>
     mttrTier (Some (Fin 0)) = Elite \<and>
     cfrTier None = Na \<and> leadTier None = Na \<and> mttrTier None = Na"
proof -
  from try_block_Inr[OF assms(1)] assms(2,3) obtain email where
    t: "resultsText env email r m = Inr (mail_text data)"
    and h: "resultsHtml env email r m = Inr (mail_html data)"
    by auto
  have falsy: "v = JNum (Fin 0) \<or> v = Null \<or> v = Undefined \<Longrightarrow> \<not> js_truthy v" for v
    by auto
  have c: "''CFR: N/A'' \<in> set (mail_text data) \<and>
        ''        <p>CFR: <strong>N/A</strong></p>'' \<in> set (mail_html data)"
    if "js_get m ''cfr'' = Inr v" "v = JNum (Fin 0) \<or> v = Null \<or> v = Undefined" for v
    using text_lines(1)[OF t show_cfr_falsy[OF that(1) falsy[OF that(2)]]]
      html_lines(1)[OF h show_cfr_falsy[OF that(1) falsy[OF that(2)]]]
    by simp
  have l: "''Lead time (days): N/A'' \<in> set (mail_text data) \<and>
        ''        <p>Lead time (days): <strong>N/A</strong></p>'' \<in> set (mail_html data)"
    if "js_get r ''leadDays'' = Inr v" "v = JNum (Fin 0) \<or> v = Null \<or> v = Undefined" for v
    using text_lines(2)[OF t show_or_na_falsy[OF that(1) falsy[OF that(2)]]]
      html_lines(2)[OF h show_or_na_falsy[OF that(1) falsy[OF that(2)]]]
    by simp
  have mt: "''MTTR (hours): N/A'' \<in> set (mail_text data) \<and>
        ''        <p>MTTR (hours): <strong>N/A</strong></p>'' \<in> set (mail_html data)"
    if "js_get r ''mttrHours'' = Inr v" "v = JNum (Fin 0) \<or> v = Null \<or> v = Undefined" for v
    using text_lines(3)[OF t show_or_na_falsy[OF that(1) falsy[OF that(2)]]]
      html_lines(3)[OF h show_or_na_falsy[OF that(1) falsy[OF that(2)]]]
    by simp
  have tiers: "cfrTier (Some (Fin 0)) = Elite \<and> leadTier (Some (Fin 0)) = Elite \<and>
     mttrTier (Some (Fin 0)) = Elite \<and>
     cfrTier None = Na \<and> leadTier None = Na \<and> mttrTier None = Na"
    by simp
  from c l mt tiers show ?thesis by blast
qed

theorem zero_rendered_as_NA_witness:
  "\<exists>data. try_block example_env example_request = Inr data \<and>
     ''CFR: N/A'' \<in> set (mail_text data) \<and>
     ''        <p>CFR: <strong>N/A</strong></p>'' \<in> set (mail_html data) \<and>
     ''Lead time (days): N/A'' \<in> set (mail_text data) \<and>
     ''        <p>Lead time (days): <strong>N/A</strong></p>'' \<in> set (mail_html data) \<and>
     ''MTTR (hours): N/A'' \<in> set (mail_text data) \<and>
     ''        <p>MTTR (hours): <strong>N/A</strong></p>'' \<in> set (mail_html data)"
proof -
  let ?r = "JObj
         [(''deploys'', JNum (Fin 12)), (''team'', JNum (Fin 12)), (''squads'', JNum (Fin 12)),
          (''errors'', JNum (Fin 0)), (''leadDays'', JNum (Fin 0)),
          (''mttrHours'', JNum (Fin 0))]"
  let ?m = "JObj
         [(''freqT'', JStr ''high''), (''perSquad'', JNum (Fin 1)), (''perEng'', JNum (Fin 1)),
          (''cfrT'', JStr ''elite''), (''cfr'', JNum (Fin 0)), (''ltT'', JStr ''elite''),
          (''mttrT'', JStr ''elite'')]"
  let ?body = "JObj [(''email'', JStr ''dev@example.com''), (''results'', ?r), (''metrics'', ?m)]"
  from example_request_formats obtain data where
    d: "try_block example_env example_request = Inr data"
    by blast
  then have d': "try_block example_env (Inr ?body) = Inr data"
    by (simp only: example_request_def)
  have gm: "js_get ?body ''metrics'' = Inr ?m" by simp
  have gr: "js_get ?body ''results'' = Inr ?r" by simp
  have g1: "js_get ?m ''cfr'' = Inr (JNum (Fin 0))" by simp
  have g2: "js_get ?r ''leadDays'' = Inr (JNum (Fin 0))" by simp
  have g3: "js_get ?r ''mttrHours'' = Inr (JNum (Fin 0))" by simp
  from zero_rendered_as_NA[OF d' gm gr] g1 g2 g3 have
    "''CFR: N/A'' \<in> set (mail_text data) \<and>
     ''        <p>CFR: <strong>N/A</strong></p>'' \<in> set (mail_html data) \<and>
     ''Lead time (days): N/A'' \<in> set (mail_text data) \<and>
     ''        <p>Lead time (days): <strong>N/A</strong></p>'' \<in> set (mail_html data) \<and>
     ''MTTR (hours): N/A'' \<in> set (mail_text data) \<and>
     ''        <p>MTTR (hours): <strong>N/A</strong></p>'' \<in> set (mail_html data)"
    by blast
  with d show ?thesis by blast
qed

end
